theory Spec2Isabelle
  imports Complex_Main "HOL-Library.Word" "HOL-Library.Signed_Division"
begin

unbundle bit_operations_syntax

section \<open>Data model (internal/database/models.go)\<close>

text \<open>
  A Go string is a sequence of bytes, and so is a \<open>[]byte\<close>: both are lists of
  \<^typ>\<open>char\<close> (a \<^typ>\<open>char\<close> is one byte), so the conversions \<open>[]byte(s)\<close> and
  \<open>string(b)\<close> are the identity and \<open>len\<close> is \<^const>\<open>length\<close>.
  A \<open>time.Time\<close> is an instant on the time line, read as an integer; \<open>t.After(u)\<close>
  is \<open>u < t\<close>. A Go error is its message; \<open>nil\<close> is \<open>None\<close>.
\<close>

type_synonym bytes = "char list"
type_synonym time = int
type_synonym u8 = "8 word"
type_synonym u32 = "32 word"
type_synonym i64 = "64 word"
type_synonym err = string

text \<open>
  A \<open>float64\<close>, as far as the order is concerned: every finite value is a rational
  number, the infinities lie outside them, and a NaN compares false with everything.
\<close>

datatype float64 = Finite rat | PosInf | NegInf | NaN

fun float_lt :: "float64 \<Rightarrow> float64 \<Rightarrow> bool" where
  "float_lt NaN _ = False"
| "float_lt _ NaN = False"
| "float_lt (Finite a) (Finite b) = (a < b)"
| "float_lt PosInf _ = False"
| "float_lt _ NegInf = False"
| "float_lt NegInf _ = True"
| "float_lt _ PosInf = True"

record Challenge =
  ID :: string
  Salt :: string
  Difficulty :: u32
  Memory :: u32
  Threads :: u8
  KeyLen :: u32
  Target :: string
  CreatedAt :: time
  ExpiresAt :: time
  Solved :: bool
  SolvedAt :: "time option"

record Solution =
  SolID :: string
  ChallengeID :: string
  Nonce :: string
  Hash :: string
  Fingerprint :: string
  ClientIP :: string
  UserAgentHdr :: string
  SolCreatedAt :: time
  Valid :: bool

text \<open>The integer fields are Go \<open>int\<close>s read as their values; the validator only compares them.\<close>

record FingerprintData =
  UserAgent :: string
  Language :: string
  Platform :: string
  HardwareConcurrency :: int
  MaxTouchPoints :: int
  ColorDepth :: int
  PixelRatio :: float64
  Timezone :: string
  CookieEnabled :: bool
  DoNotTrack :: string
  ScreenResolution :: string
  AvailableScreenResolution :: string

section \<open>Strings and numbers of the standard library, as the validator uses them\<close>

definition isDigit :: "char \<Rightarrow> bool" where
  "isDigit c = (48 \<le> (of_char c :: nat) \<and> (of_char c :: nat) \<le> 57)"

definition isLower :: "char \<Rightarrow> bool" where
  "isLower c = (97 \<le> (of_char c :: nat) \<and> (of_char c :: nat) \<le> 122)"

definition isUpper :: "char \<Rightarrow> bool" where
  "isUpper c = (65 \<le> (of_char c :: nat) \<and> (of_char c :: nat) \<le> 90)"

text \<open>\<open>strings.HasPrefix(s, prefix)\<close>: \<open>len(s) >= len(prefix) && s[:len(prefix)] == prefix\<close>.\<close>

definition HasPrefix :: "string \<Rightarrow> string \<Rightarrow> bool" where
  "HasPrefix s pre = (length pre \<le> length s \<and> take (length pre) s = pre)"

text \<open>\<open>strings.Contains(s, substr)\<close>: \<open>substr\<close> occurs at some offset of \<open>s\<close>.\<close>

definition Contains :: "string \<Rightarrow> string \<Rightarrow> bool" where
  "Contains s substr = list_ex (\<lambda>i. HasPrefix (drop i s) substr) [0..<Suc (length s)]"

text \<open>
  \<open>strings.Split(s, "x")\<close> for the one-byte separator the validator passes. The result
  always has a first piece, so the branch for an empty list of pieces is never taken.
\<close>

fun Split :: "string \<Rightarrow> char \<Rightarrow> string list" where
  "Split [] sep = [[]]"
| "Split (c # cs) sep =
     (if c = sep then [] # Split cs sep
      else (case Split cs sep of [] \<Rightarrow> [[c]] | p # ps \<Rightarrow> (c # p) # ps))"

text \<open>
  \<open>strconv.Atoi\<close> on a 64-bit platform: an optional sign, then one or more decimal digits;
  a value outside the range of \<open>int\<close> is an error.
\<close>

definition digitsValue :: "string \<Rightarrow> int" where
  "digitsValue ds = foldl (\<lambda>n ch. n * 10 + (of_char ch - 48)) 0 ds"

definition Atoi :: "string \<Rightarrow> int option" where
  "Atoi s =
     (case s of
        [] \<Rightarrow> None
      | c # cs \<Rightarrow>
          (let ds = (if c = CHR ''-'' \<or> c = CHR ''+'' then cs else s);
               n = digitsValue ds;
               v = (if c = CHR ''-'' then - n else n)
           in if ds = [] \<or> \<not> list_all isDigit ds then None
              else if v < - (2 ^ 63) \<or> 2 ^ 63 - 1 < v then None
              else Some v))"

text \<open>
  The regular expressions of the validator, each written out as the matcher it denotes.
  \<open>tok\d+\.\d+\<close> is not anchored, so it may match at any offset: the token, a run of
  digits, a dot, a digit.
\<close>

definition versionAt :: "string \<Rightarrow> string \<Rightarrow> bool" where
  "versionAt tok t =
     (HasPrefix t tok \<and>
      (let r = drop (length tok) t
       in takeWhile isDigit r \<noteq> [] \<and>
          (case dropWhile isDigit r of
             c # d # _ \<Rightarrow> c = CHR ''.'' \<and> isDigit d
           | _ \<Rightarrow> False)))"

definition MatchVersion :: "string \<Rightarrow> string \<Rightarrow> bool" where
  "MatchVersion tok s = list_ex (\<lambda>i. versionAt tok (drop i s)) [0..<Suc (length s)]"

text \<open>\<open>^[a-z]{2}(-[A-Z]{2})?$\<close>\<close>

fun MatchLanguage :: "string \<Rightarrow> bool" where
  "MatchLanguage [a, b] = (isLower a \<and> isLower b)"
| "MatchLanguage [a, b, h, c, d] =
     (isLower a \<and> isLower b \<and> h = CHR ''-'' \<and> isUpper c \<and> isUpper d)"
| "MatchLanguage _ = False"

text \<open>\<open>^-?\d+$\<close>\<close>

definition MatchOffset :: "string \<Rightarrow> bool" where
  "MatchOffset s =
     (let ds = (case s of [] \<Rightarrow> [] | c # cs \<Rightarrow> if c = CHR ''-'' then cs else s)
      in ds \<noteq> [] \<and> list_all isDigit ds)"

section \<open>Fingerprint validation (package fingerprint)\<close>

definition validateUserAgent :: "string \<Rightarrow> err option" where
  "validateUserAgent userAgent =
     (if length userAgent < 10 \<or> length userAgent > 1000
      then Some ''user agent length out of range''
      else if list_ex (\<lambda>pattern. MatchVersion pattern userAgent)
                [''Mozilla/'', ''Chrome/'', ''Safari/'', ''Firefox/'', ''Edge/'']
      then None
      else Some ''user agent format not recognized'')"

definition validateLanguage :: "string \<Rightarrow> err option" where
  "validateLanguage language =
     (if length language < 2 \<or> length language > 10
      then Some ''language format invalid''
      else if \<not> MatchLanguage language
      then Some ''language code format invalid''
      else None)"

definition validatePlatform :: "string \<Rightarrow> err option" where
  "validatePlatform platform =
     (if list_ex (\<lambda>valid. Contains platform valid)
           [''Win32'', ''MacIntel'', ''Linux x86_64'', ''Linux i686'',
            ''iPhone'', ''iPad'', ''Android'', ''X11'']
      then None
      else Some ''platform not recognized'')"

definition validateHardwareConcurrency :: "int \<Rightarrow> err option" where
  "validateHardwareConcurrency concurrency =
     (if concurrency < 1 \<or> concurrency > 128
      then Some ''hardware concurrency out of range''
      else None)"

definition validateMaxTouchPoints :: "int \<Rightarrow> err option" where
  "validateMaxTouchPoints points =
     (if points < 0 \<or> points > 10
      then Some ''max touch points out of range''
      else None)"

definition validateColorDepth :: "int \<Rightarrow> err option" where
  "validateColorDepth depth =
     (if list_ex (\<lambda>valid. depth = valid) [8, 16, 24, 30, 32, 48]
      then None
      else Some ''color depth not valid'')"

definition validatePixelRatio :: "float64 \<Rightarrow> err option" where
  "validatePixelRatio ratio =
     (if float_lt ratio (Finite (1 / 2)) \<or> float_lt (Finite 5) ratio
      then Some ''pixel ratio out of range''
      else None)"

definition validateTimezone :: "string \<Rightarrow> err option" where
  "validateTimezone timezone =
     (if length timezone = 0 \<or> length timezone > 10
      then Some ''timezone length out of range''
      else if \<not> MatchOffset timezone
      then Some ''timezone format invalid - should be numeric offset''
      else (case Atoi timezone of
              None \<Rightarrow> Some ''timezone not a valid number''
            | Some offset \<Rightarrow>
                if offset < - 840 \<or> offset > 720
                then Some ''timezone offset out of valid range''
                else None))"

definition validateDoNotTrack :: "string \<Rightarrow> err option" where
  "validateDoNotTrack dnt =
     (if list_ex (\<lambda>valid. dnt = valid) [''1'', ''0'', ''unspecified'', ''null'', '''']
      then None
      else Some ''do not track value invalid'')"

definition validateScreenResolution :: "string \<Rightarrow> err option" where
  "validateScreenResolution resolution =
     (if resolution = [] then Some ''screen resolution cannot be empty''
      else (case Split resolution (CHR ''x'') of
              [w, h] \<Rightarrow>
                (case Atoi w of
                   None \<Rightarrow> Some ''screen width out of range''
                 | Some width \<Rightarrow>
                     if width < 100 \<or> width > 10000
                     then Some ''screen width out of range''
                     else (case Atoi h of
                             None \<Rightarrow> Some ''screen height out of range''
                           | Some height \<Rightarrow>
                               if height < 100 \<or> height > 10000
                               then Some ''screen height out of range''
                               else None))
            | _ \<Rightarrow> Some ''screen resolution format invalid''))"

text \<open>\<open>fmt.Errorf("invalid ...: %w", err)\<close>: the field's name in front of the reason.\<close>

definition wrapErr :: "string \<Rightarrow> err option \<Rightarrow> err option" where
  "wrapErr ctx e = (case e of None \<Rightarrow> None | Some m \<Rightarrow> Some (ctx @ '': '' @ m))"

text \<open>The checks of \<open>validateFingerprintFields\<close>, in the order of the source.\<close>

definition fieldChecks :: "FingerprintData \<Rightarrow> err option list" where
  "fieldChecks fp =
     [wrapErr ''invalid user agent'' (validateUserAgent (UserAgent fp)),
      wrapErr ''invalid language'' (validateLanguage (Language fp)),
      wrapErr ''invalid platform'' (validatePlatform (Platform fp)),
      wrapErr ''invalid hardware concurrency''
        (validateHardwareConcurrency (HardwareConcurrency fp)),
      wrapErr ''invalid max touch points'' (validateMaxTouchPoints (MaxTouchPoints fp)),
      wrapErr ''invalid color depth'' (validateColorDepth (ColorDepth fp)),
      wrapErr ''invalid pixel ratio'' (validatePixelRatio (PixelRatio fp)),
      wrapErr ''invalid timezone'' (validateTimezone (Timezone fp)),
      wrapErr ''invalid do not track'' (validateDoNotTrack (DoNotTrack fp)),
      wrapErr ''invalid screen resolution'' (validateScreenResolution (ScreenResolution fp)),
      wrapErr ''invalid available screen resolution''
        (validateScreenResolution (AvailableScreenResolution fp))]"

text \<open>Each \<open>if err := ...; err != nil { return ... }\<close> returns the first error met.\<close>

fun firstErr :: "err option list \<Rightarrow> err option" where
  "firstErr [] = None"
| "firstErr (None # es) = firstErr es"
| "firstErr (Some m # es) = Some m"

definition validateFingerprintFields :: "FingerprintData \<Rightarrow> err option" where
  "validateFingerprintFields fp = firstErr (fieldChecks fp)"

section \<open>Outcomes, configuration and the world outside\<close>

text \<open>
  A call returns a value, returns an error, or panics (a slice expression out of range,
  a library precondition broken).
\<close>

datatype 'a result = Ok 'a | Err err | Panic string

text \<open>The fields of \<open>config.Config\<close> that concern the challenge.\<close>

record Config =
  Argon2Time :: u32
  Argon2Memory :: u32
  Argon2Threads :: u8
  Argon2KeyLength :: u32
  Argon2SaltLength :: int
  Argon2TargetPrefix :: string
  Argon2MaxSolveTime :: i64
  ChallengeExpiryMinutes :: i64

text \<open>
  The functions of other packages that the code calls are parameters of the model; a
  library error is its message (\<open>Inl\<close>).
  \<^item> \<open>base64_encode\<close>, \<open>base64_decode\<close>: \<open>base64.StdEncoding\<close>'s \<open>EncodeToString\<close> and
    \<open>DecodeString\<close>;
  \<^item> \<open>aes_NewCipher\<close>, \<open>cipher_NewGCM\<close>: the error, if any, of setting up AES-GCM with a key;
  \<^item> \<open>gcm_seal key nonce plaintext\<close>: what \<open>Seal\<close> appends to its destination;
    \<open>gcm_open key nonce ciphertext\<close>: \<open>Open\<close>, an error when authentication fails;
  \<^item> \<open>json_marshal\<close>, \<open>json_unmarshal\<close>: \<open>encoding/json\<close> at type \<open>FingerprintData\<close>,
    the first on the records it can serialise (see \<open>Marshal\<close> below);
  \<^item> \<open>argon2_IDKey\<close>: \<open>argon2.IDKey\<close> where it returns (see \<open>IDKey\<close> below);
  \<^item> \<open>utf8_runes s\<close>: the runes of \<open>[]rune(s)\<close>, each as the bytes \<open>string\<close> gives it back.
\<close>

record stdlib =
  base64_encode :: "bytes \<Rightarrow> string"
  base64_decode :: "string \<Rightarrow> err + bytes"
  aes_NewCipher :: "bytes \<Rightarrow> err option"
  cipher_NewGCM :: "bytes \<Rightarrow> err option"
  gcm_seal :: "bytes \<Rightarrow> bytes \<Rightarrow> bytes \<Rightarrow> bytes"
  gcm_open :: "bytes \<Rightarrow> bytes \<Rightarrow> bytes \<Rightarrow> err + bytes"
  json_marshal :: "FingerprintData \<Rightarrow> err + bytes"
  json_unmarshal :: "bytes \<Rightarrow> err + FingerprintData"
  argon2_IDKey :: "bytes \<Rightarrow> bytes \<Rightarrow> u32 \<Rightarrow> u32 \<Rightarrow> u8 \<Rightarrow> u32 \<Rightarrow> bytes"
  utf8_runes :: "string \<Rightarrow> string list"

text \<open>
  What one call reads from the world: the clock, the random source (an error, or a
  stream of bytes), and the faults of the database server (a lost connection, a
  constraint of the schema violated), each the error of one statement.
\<close>

record world =
  now_check :: time
  now_created :: time
  db_now :: time
  entropy :: "err + (nat \<Rightarrow> char)"
  get_challenge_fault :: "err option"
  create_solution_fault :: "err option"
  mark_solved_fault :: "err option"

text \<open>The tables: \<open>challenges\<close> keyed by id, \<open>solutions\<close> as the rows inserted, in order.\<close>

record db =
  challenges :: "string \<rightharpoonup> Challenge"
  solutions :: "Solution list"

text \<open>
  \<open>json.Marshal\<close> of a \<open>FingerprintData\<close>: a \<open>float64\<close> that is NaN or infinite has no
  JSON form, and the call returns an \<open>UnsupportedValueError\<close>.
\<close>

definition Marshal :: "stdlib \<Rightarrow> FingerprintData \<Rightarrow> err + bytes" where
  "Marshal L v =
     (case PixelRatio v of
        NaN \<Rightarrow> Inl ''json: unsupported value: NaN''
      | PosInf \<Rightarrow> Inl ''json: unsupported value: +Inf''
      | NegInf \<Rightarrow> Inl ''json: unsupported value: -Inf''
      | Finite _ \<Rightarrow> json_marshal L v)"

section \<open>Package crypto (internal/crypto/encryption.go)\<close>

definition NonceSize :: nat where
  "NonceSize = 12"

text \<open>\<open>s[:n]\<close> and \<open>s[n:]\<close> panic when \<open>n\<close> is beyond the slice.\<close>

definition sliceTo :: "bytes \<Rightarrow> nat \<Rightarrow> bytes result" where
  "sliceTo s n = (if n \<le> length s then Ok (take n s) else Panic ''slice bounds out of range'')"

definition sliceFrom :: "bytes \<Rightarrow> nat \<Rightarrow> bytes result" where
  "sliceFrom s n = (if n \<le> length s then Ok (drop n s) else Panic ''slice bounds out of range'')"

text \<open>\<open>gcm.Open(nil, nonce, ciphertext, nil)\<close>: the library panics on a nonce of another size.\<close>

definition Open :: "stdlib \<Rightarrow> bytes \<Rightarrow> bytes \<Rightarrow> bytes \<Rightarrow> bytes result" where
  "Open L key nonce ciphertext =
     (if length nonce \<noteq> NonceSize
      then Panic ''crypto/cipher: incorrect nonce length given to GCM''
      else (case gcm_open L key nonce ciphertext of Inl e \<Rightarrow> Err e | Inr p \<Rightarrow> Ok p))"

text \<open>\<open>make([]byte, n)\<close> filled by \<open>rand.Read\<close> or \<open>io.ReadFull(rand.Reader, _)\<close>.\<close>

definition readRandom :: "err + (nat \<Rightarrow> char) \<Rightarrow> nat \<Rightarrow> err + bytes" where
  "readRandom src n = (case src of Inl e \<Rightarrow> Inl e | Inr f \<Rightarrow> Inr (map f [0..<n]))"

definition Encrypt :: "stdlib \<Rightarrow> world \<Rightarrow> bytes \<Rightarrow> bytes \<Rightarrow> string result" where
  "Encrypt L w plaintext key =
     (case aes_NewCipher L key of
        Some e \<Rightarrow> Err (''failed to create cipher: '' @ e)
      | None \<Rightarrow>
          (case cipher_NewGCM L key of
             Some e \<Rightarrow> Err (''failed to create GCM: '' @ e)
           | None \<Rightarrow>
               (case readRandom (entropy w) NonceSize of
                  Inl e \<Rightarrow> Err (''failed to generate nonce: '' @ e)
                | Inr nonce \<Rightarrow>
                    (let ciphertext = nonce @ gcm_seal L key nonce plaintext
                     in Ok (base64_encode L ciphertext)))))"

definition Decrypt :: "stdlib \<Rightarrow> string \<Rightarrow> bytes \<Rightarrow> bytes result" where
  "Decrypt L ciphertextBase64 key =
     (case base64_decode L ciphertextBase64 of
        Inl e \<Rightarrow> Err (''failed to decode base64: '' @ e)
      | Inr ciphertext \<Rightarrow>
          (case aes_NewCipher L key of
             Some e \<Rightarrow> Err (''failed to create cipher: '' @ e)
           | None \<Rightarrow>
               (case cipher_NewGCM L key of
                  Some e \<Rightarrow> Err (''failed to create GCM: '' @ e)
                | None \<Rightarrow>
                    if length ciphertext < NonceSize then Err ''ciphertext too short''
                    else (case sliceTo ciphertext NonceSize of
                            Panic p \<Rightarrow> Panic p
                          | Err e \<Rightarrow> Err e
                          | Ok nonce \<Rightarrow>
                              (case sliceFrom ciphertext NonceSize of
                                 Panic p \<Rightarrow> Panic p
                               | Err e \<Rightarrow> Err e
                               | Ok ciphertext' \<Rightarrow>
                                   (case Open L key nonce ciphertext' of
                                      Panic p \<Rightarrow> Panic p
                                    | Err e \<Rightarrow> Err (''failed to decrypt: '' @ e)
                                    | Ok plaintext \<Rightarrow> Ok plaintext))))))"

text \<open>
  \<open>ReverseBytes\<close>: a fresh slice of the same length, and for each index \<open>i\<close> the
  assignment \<open>result[len(data)-1-i] = data[i]\<close>.
\<close>

definition ReverseBytes :: "bytes \<Rightarrow> bytes" where
  "ReverseBytes data =
     foldl (\<lambda>result i. result[length data - 1 - i := data ! i])
       (replicate (length data) (CHR 0x00)) [0..<length data]"

definition GenerateRandomBytes :: "world \<Rightarrow> nat \<Rightarrow> err + bytes" where
  "GenerateRandomBytes w n =
     (case readRandom (entropy w) n of
        Inl e \<Rightarrow> Inl (''failed to generate random bytes: '' @ e)
      | Inr bs \<Rightarrow> Inr bs)"

definition EncodeBase64 :: "stdlib \<Rightarrow> bytes \<Rightarrow> string" where
  "EncodeBase64 L data = base64_encode L data"

definition DecodeBase64 :: "stdlib \<Rightarrow> string \<Rightarrow> err + bytes" where
  "DecodeBase64 L data = base64_decode L data"

text \<open>\<open>hex.EncodeToString\<close>: two lowercase hexadecimal digits for each byte.\<close>

definition hexDigit :: "nat \<Rightarrow> char" where
  "hexDigit n = ''0123456789abcdef'' ! n"

definition EncodeToString :: "bytes \<Rightarrow> string" where
  "EncodeToString src =
     concat (map (\<lambda>b. [hexDigit (of_char b div 16), hexDigit (of_char b mod 16)]) src)"

section \<open>The client's encoder (wasm/main.go)\<close>

text \<open>
  \<open>reverseString\<close>: the runes of the string, swapped end for end. The client's own
  \<open>encrypt\<close> has the body of \<open>Encrypt\<close> above, statement for statement.
\<close>

definition reverseString :: "stdlib \<Rightarrow> string \<Rightarrow> string" where
  "reverseString L s = concat (rev (utf8_runes L s))"

text \<open>
  \<open>collectFingerprint\<close> from the point where the record is filled in: serialise,
  encode, reverse, encrypt. The result is the \<open>fingerprint\<close> entry of the map returned
  on success, or the \<open>error\<close> entry.
\<close>

definition collectFingerprint ::
  "stdlib \<Rightarrow> world \<Rightarrow> bytes \<Rightarrow> FingerprintData \<Rightarrow> string result" where
  "collectFingerprint L w aesKey fingerprint =
     (case Marshal L fingerprint of
        Inl e \<Rightarrow> Err ''Failed to serialize fingerprint''
      | Inr jsonData \<Rightarrow>
          (let b64Data = base64_encode L jsonData;
               reversedData = reverseString L b64Data
           in case Encrypt L w reversedData aesKey of
                Panic p \<Rightarrow> Panic p
              | Err e \<Rightarrow> Err ''Failed to encrypt fingerprint''
              | Ok encryptedData \<Rightarrow> Ok encryptedData))"

section \<open>Decoding and validating a fingerprint (package fingerprint)\<close>

record Validator =
  vcfg :: Config
  key :: bytes

definition ValidateFingerprint :: "stdlib \<Rightarrow> Validator \<Rightarrow> string \<Rightarrow> FingerprintData result" where
  "ValidateFingerprint L v encryptedFingerprint =
     (case Decrypt L encryptedFingerprint (key v) of
        Panic p \<Rightarrow> Panic p
      | Err e \<Rightarrow> Err (''failed to decrypt fingerprint: '' @ e)
      | Ok decryptedData \<Rightarrow>
          (let reversedData = ReverseBytes decryptedData
           in case DecodeBase64 L reversedData of
                Inl e \<Rightarrow> Err (''failed to decode base64 fingerprint: '' @ e)
              | Inr jsonData \<Rightarrow>
                  (case json_unmarshal L jsonData of
                     Inl e \<Rightarrow> Err (''failed to parse fingerprint JSON: '' @ e)
                   | Inr fingerprint \<Rightarrow>
                       (case validateFingerprintFields fingerprint of
                          Some e \<Rightarrow> Err (''fingerprint validation failed: '' @ e)
                        | None \<Rightarrow> Ok fingerprint))))"

section \<open>The store (package database)\<close>

text \<open>\<open>GetChallenge\<close>: \<open>(nil, nil)\<close> when no row has the id (\<open>sql.ErrNoRows\<close>).\<close>

definition GetChallenge :: "world \<Rightarrow> db \<Rightarrow> string \<Rightarrow> err + Challenge option" where
  "GetChallenge w d ident =
     (case get_challenge_fault w of Some e \<Rightarrow> Inl e | None \<Rightarrow> Inr (challenges d ident))"

text \<open>\<open>UPDATE challenges SET solved = true, solved_at = NOW() WHERE id = $1\<close>\<close>

definition MarkChallengeSolved :: "world \<Rightarrow> db \<Rightarrow> string \<Rightarrow> err option \<times> db" where
  "MarkChallengeSolved w d ident =
     (case mark_solved_fault w of
        Some e \<Rightarrow> (Some e, d)
      | None \<Rightarrow>
          (None,
           (case challenges d ident of
              None \<Rightarrow> d
            | Some c \<Rightarrow>
                d\<lparr>challenges :=
                    (challenges d)(ident \<mapsto> c\<lparr>Solved := True, SolvedAt := Some (db_now w)\<rparr>)\<rparr>)))"

text \<open>\<open>INSERT INTO solutions ...\<close>\<close>

definition CreateSolution :: "world \<Rightarrow> db \<Rightarrow> Solution \<Rightarrow> err option \<times> db" where
  "CreateSolution w d solution =
     (case create_solution_fault w of
        Some e \<Rightarrow> (Some e, d)
      | None \<Rightarrow> (None, d\<lparr>solutions := solutions d @ [solution]\<rparr>))"

section \<open>Verifying a solution and estimating the solve time (package argon2)\<close>

record Service =
  cfg :: Config

text \<open>
  \<open>argon2.IDKey\<close> panics when the number of passes or of threads is zero. With a key
  length of zero it panics at the end, where the key is extracted: BLAKE2b has no digest
  of zero bytes, and the hash that was not created is written to. Otherwise it returns
  the key.
\<close>

definition IDKey ::
  "stdlib \<Rightarrow> bytes \<Rightarrow> bytes \<Rightarrow> u32 \<Rightarrow> u32 \<Rightarrow> u8 \<Rightarrow> u32 \<Rightarrow> bytes result" where
  "IDKey L password salt t m threads keyLen =
     (if t < 1 then Panic ''argon2: number of rounds too small''
      else if threads < 1 then Panic ''argon2: parallelism degree too low''
      else if keyLen = 0
      then Panic ''runtime error: invalid memory address or nil pointer dereference''
      else Ok (argon2_IDKey L password salt t m threads keyLen))"

definition hasValidPrefix :: "Service \<Rightarrow> string \<Rightarrow> string \<Rightarrow> bool" where
  "hasValidPrefix s hash pre = HasPrefix hash pre"

definition verifySolution ::
  "stdlib \<Rightarrow> Service \<Rightarrow> Challenge \<Rightarrow> string \<Rightarrow> string \<Rightarrow> bool result" where
  "verifySolution L s challenge nonce providedHash =
     (case base64_decode L (Salt challenge) of
        Inl e \<Rightarrow> Err (''failed to decode salt: '' @ e)
      | Inr salt \<Rightarrow>
          (let inputData = Salt challenge @ nonce
           in case IDKey L inputData salt (Difficulty challenge) (Memory challenge)
                     (Threads challenge) (KeyLen challenge) of
                Panic p \<Rightarrow> Panic p
              | Err e \<Rightarrow> Err e
              | Ok hash \<Rightarrow>
                  (let computedHash = EncodeToString hash
                   in Ok (computedHash = providedHash
                          \<and> hasValidPrefix s computedHash (Target challenge)))))"

definition VerifySolution ::
  "stdlib \<Rightarrow> Service \<Rightarrow> world \<Rightarrow> db \<Rightarrow> string \<Rightarrow> string \<Rightarrow> string \<Rightarrow> string \<Rightarrow> string \<Rightarrow> string
     \<Rightarrow> Solution result \<times> db" where
  "VerifySolution L s w d challengeID nonce hash fingerprint clientIP userAgent =
     (case GetChallenge w d challengeID of
        Inl e \<Rightarrow> (Err (''failed to get challenge: '' @ e), d)
      | Inr None \<Rightarrow> (Err ''challenge not found'', d)
      | Inr (Some challenge) \<Rightarrow>
          if ExpiresAt challenge < now_check w then (Err ''challenge expired'', d)
          else if Solved challenge then (Err ''challenge already solved'', d)
          else (case verifySolution L s challenge nonce hash of
                  Panic p \<Rightarrow> (Panic p, d)
                | Err e \<Rightarrow> (Err (''failed to verify solution: '' @ e), d)
                | Ok valid \<Rightarrow>
                    (case GenerateRandomBytes w 16 of
                       Inl e \<Rightarrow> (Err (''failed to generate solution ID: '' @ e), d)
                     | Inr solutionID \<Rightarrow>
                         (let solution =
                                \<lparr>SolID = EncodeToString solutionID,
                                 ChallengeID = challengeID,
                                 Nonce = nonce,
                                 Hash = hash,
                                 Fingerprint = fingerprint,
                                 ClientIP = clientIP,
                                 UserAgentHdr = userAgent,
                                 SolCreatedAt = now_created w,
                                 Valid = valid\<rparr>
                          in case CreateSolution w d solution of
                               (Some e, d') \<Rightarrow> (Err (''failed to store solution: '' @ e), d')
                             | (None, d') \<Rightarrow>
                                 if valid
                                 then (case MarkChallengeSolved w d' challengeID of
                                         (Some e, d'') \<Rightarrow>
                                           (Err (''failed to mark challenge as solved: '' @ e), d'')
                                       | (None, d'') \<Rightarrow> (Ok solution, d''))
                                 else (Ok solution, d')))))"

text \<open>
  \<open>EstimateSolveTime\<close>, on 64-bit \<open>int\<close>s: the shift drops the bits beyond the word, the
  division is Go's (truncating), the comparison is signed, and the product with
  \<open>time.Second\<close> (a \<open>Duration\<close> counts nanoseconds) wraps around.
\<close>

definition goDiv :: "i64 \<Rightarrow> i64 \<Rightarrow> i64" where
  "goDiv a b = word_of_int (sint a sdiv sint b)"

definition Second :: i64 where
  "Second = 1000000000"

definition EstimateSolveTime :: "Service \<Rightarrow> i64" where
  "EstimateSolveTime s =
     (let prefixLength = length (Argon2TargetPrefix (cfg s));
          estimatedAttempts = push_bit (prefixLength * 4) (1 :: i64);
          hashesPerSecond = (100 :: i64);
          estimatedSeconds = goDiv estimatedAttempts hashesPerSecond;
          maxSeconds = Argon2MaxSolveTime (cfg s);
          estimatedSeconds' =
            (if maxSeconds <s estimatedSeconds then maxSeconds else estimatedSeconds)
      in estimatedSeconds' * Second)"

section \<open>The verify endpoint (package handlers)\<close>

record VerifyRequest =
  ReqChallengeID :: string
  ReqNonce :: string
  ReqHash :: string
  ReqFingerprint :: string

record VerifyResponse =
  RespValid :: bool
  Message :: string

text \<open>
  Of a request the handler reads the method, the body (\<open>None\<close> when it is not the JSON
  of a \<open>VerifyRequest\<close>), the address \<open>getClientIP\<close> finds and the \<open>User-Agent\<close> header.
\<close>

record Request =
  Method :: string
  Body :: "VerifyRequest option"
  RemoteIP :: string
  UserAgentHeader :: string

text \<open>What the client receives: \<open>http.Error\<close>, a JSON document, or nothing when the handler panics.\<close>

datatype Response = HttpError string nat | Json VerifyResponse | Aborted string

record Handler =
  argon2Service :: Service
  fingerprintValidator :: Validator

definition VerifyHandler :: "stdlib \<Rightarrow> Handler \<Rightarrow> world \<Rightarrow> db \<Rightarrow> Request \<Rightarrow> Response \<times> db" where
  "VerifyHandler L h w d r =
     (if Method r \<noteq> ''POST'' then (HttpError ''Method not allowed'' 405, d)
      else (case Body r of
              None \<Rightarrow> (HttpError ''Invalid JSON'' 400, d)
            | Some req \<Rightarrow>
                (case ValidateFingerprint L (fingerprintValidator h) (ReqFingerprint req) of
                   Panic p \<Rightarrow> (Aborted p, d)
                 | Err e \<Rightarrow>
                     (Json \<lparr>RespValid = False, Message = ''Fingerprint validation failed''\<rparr>, d)
                 | Ok fingerprintData \<Rightarrow>
                     (case Marshal L fingerprintData of
                        Inl e \<Rightarrow> (HttpError ''Failed to serialize fingerprint'' 500, d)
                      | Inr fingerprintJSON \<Rightarrow>
                          (case VerifySolution L (argon2Service h) w d (ReqChallengeID req)
                                  (ReqNonce req) (ReqHash req) fingerprintJSON
                                  (RemoteIP r) (UserAgentHeader r) of
                             (Panic p, d') \<Rightarrow> (Aborted p, d')
                           | (Err e, d') \<Rightarrow>
                               (Json \<lparr>RespValid = False,
                                      Message = ''Verification failed: '' @ e\<rparr>, d')
                           | (Ok solution, d') \<Rightarrow>
                               (Json \<lparr>RespValid = Valid solution,
                                      Message = (if Valid solution
                                                 then ''Captcha solved successfully''
                                                 else ''Invalid solution'')\<rparr>, d'))))))"

section \<open>Concrete inputs\<close>

text \<open>
  Values on which the model is evaluated. The functions of \<open>exampleLib\<close> are small
  stand-ins with the shape of the library functions (an encoding that is the identity, a
  cipher whose tag is the first byte of the key, a serialiser that keeps the user agent,
  a hash made of a zero byte and the first byte of its input); they are not the
  algorithms.
\<close>

definition exampleFingerprint :: FingerprintData where
  "exampleFingerprint =
     \<lparr>UserAgent = ''Mozilla/5.0 (X11; Linux x86_64)'', Language = ''en-US'',
      Platform = ''Linux x86_64'', HardwareConcurrency = 8, MaxTouchPoints = 0,
      ColorDepth = 24, PixelRatio = Finite 1, Timezone = ''-120'', CookieEnabled = True,
      DoNotTrack = ''1'', ScreenResolution = ''1920x1080'',
      AvailableScreenResolution = ''1920x1040''\<rparr>"

definition exampleLib :: stdlib where
  "exampleLib =
     \<lparr>base64_encode = (\<lambda>b. b),
      base64_decode = (\<lambda>s. Inr s),
      aes_NewCipher = (\<lambda>k. if length k = 16 \<or> length k = 24 \<or> length k = 32 then None
                          else Some ''crypto/aes: invalid key size''),
      cipher_NewGCM = (\<lambda>k. None),
      gcm_seal = (\<lambda>k n p. p @ take 1 k),
      gcm_open = (\<lambda>k n c. if c \<noteq> [] \<and> take 1 k = [last c] then Inr (butlast c)
                           else Inl ''cipher: message authentication failed''),
      json_marshal = (\<lambda>fp. Inr (UserAgent fp)),
      json_unmarshal = (\<lambda>b. Inr (exampleFingerprint\<lparr>UserAgent := b\<rparr>)),
      argon2_IDKey = (\<lambda>pw salt t m th kl. CHR 0x00 # take 1 pw),
      utf8_runes = map (\<lambda>c. [c])\<rparr>"

definition exampleKey :: bytes where
  "exampleKey = ''0123456789abcdef0123456789abcdef''"

definition exampleConfig :: Config where
  "exampleConfig =
     \<lparr>Argon2Time = 3, Argon2Memory = 65536, Argon2Threads = 1, Argon2KeyLength = 32,
      Argon2SaltLength = 16, Argon2TargetPrefix = ''000'', Argon2MaxSolveTime = 6,
      ChallengeExpiryMinutes = 5\<rparr>"

definition exampleService :: Service where
  "exampleService = \<lparr>cfg = exampleConfig\<rparr>"

definition exampleValidator :: Validator where
  "exampleValidator = \<lparr>vcfg = exampleConfig, key = exampleKey\<rparr>"

definition exampleHandler :: Handler where
  "exampleHandler =
     \<lparr>argon2Service = exampleService, fingerprintValidator = exampleValidator\<rparr>"

definition exampleWorld :: world where
  "exampleWorld =
     \<lparr>now_check = 1100, now_created = 1101, db_now = 1102,
      entropy = Inr (\<lambda>i. CHR ''n''),
      get_challenge_fault = None, create_solution_fault = None, mark_solved_fault = None\<rparr>"

definition exampleChallenge :: Challenge where
  "exampleChallenge =
     \<lparr>ID = ''c1'', Salt = ''c2FsdA=='', Difficulty = 3, Memory = 65536, Threads = 1,
      KeyLen = 32, Target = ''00'', CreatedAt = 1000, ExpiresAt = 1300, Solved = False,
      SolvedAt = None\<rparr>"

definition exampleDb :: db where
  "exampleDb = \<lparr>challenges = [''c1'' \<mapsto> exampleChallenge], solutions = []\<rparr>"

definition solvedDb :: db where
  "solvedDb =
     \<lparr>challenges = [''c1'' \<mapsto> exampleChallenge\<lparr>Solved := True, SolvedAt := Some 1200\<rparr>],
      solutions = []\<rparr>"

text \<open>A ten-digit target prefix and a maximum of ten thousand million seconds.\<close>

definition overflowConfig :: Config where
  "overflowConfig =
     exampleConfig\<lparr>Argon2TargetPrefix := ''0000000000'', Argon2MaxSolveTime := 10000000000\<rparr>"

text \<open>
  Two verify requests: in the first the last byte of a sealed fingerprint was changed, in
  the second the token is intact but the fingerprint inside it breaks a field rule.
\<close>

definition tamperedRequest :: Request where
  "tamperedRequest =
     \<lparr>Method = ''POST'',
      Body = Some \<lparr>ReqChallengeID = ''c1'', ReqNonce = ''7'', ReqHash = ''0063'',
                   ReqFingerprint = ''nnnnnnnnnnnn)46_68x xuniL ;11X( 0.5/allizoM1''\<rparr>,
      RemoteIP = ''10.0.0.1'', UserAgentHeader = ''curl/8''\<rparr>"

definition malformedRequest :: Request where
  "malformedRequest =
     \<lparr>Method = ''POST'',
      Body = Some \<lparr>ReqChallengeID = ''c1'', ReqNonce = ''7'', ReqHash = ''0063'',
                   ReqFingerprint = ''nnnnnnnnnnnndab0''\<rparr>,
      RemoteIP = ''10.0.0.1'', UserAgentHeader = ''curl/8''\<rparr>"

section \<open>Auxiliary facts\<close>

lemma reverse_loop:
  fixes data :: bytes
  assumes "k \<le> length data" "length init = length data"
  shows "foldl (\<lambda>result i. result[length data - 1 - i := data ! i]) init [0..<k]
         = take (length data - k) init @ rev (take k data)"
  using assms
proof (induction k)
  case 0
  then show ?case by simp
next
  case (Suc k)
  let ?n = "length data"
  have k: "k < ?n" using Suc.prems by simp
  have ih: "foldl (\<lambda>result i. result[?n - 1 - i := data ! i]) init [0..<k]
         = take (?n - k) init @ rev (take k data)"
    using Suc by simp
  have len: "length (take (?n - k) init) = ?n - k" using Suc.prems by simp
  have idx: "?n - 1 - k < ?n - k" using k by simp
  have "(take (?n - k) init @ rev (take k data))[?n - 1 - k := data ! k]
        = (take (?n - k) init)[?n - 1 - k := data ! k] @ rev (take k data)"
    using idx len by (simp add: list_update_append)
  also have "(take (?n - k) init)[?n - 1 - k := data ! k]
        = take (?n - Suc k) init @ [data ! k]"
  proof -
    have "take (?n - k) init = take (?n - Suc k) init @ [init ! (?n - Suc k)]"
      using k Suc.prems
      by (metis Suc_diff_Suc diff_less_Suc not_less_eq take_Suc_conv_app_nth)
    then show ?thesis using k Suc.prems by (simp add: list_update_append)
  qed
  finally have step: "(take (?n - k) init @ rev (take k data))[?n - 1 - k := data ! k]
        = take (?n - Suc k) init @ [data ! k] @ rev (take k data)" by simp
  have "take (Suc k) data = take k data @ [data ! k]"
    using k by (simp add: take_Suc_conv_app_nth)
  then show ?case using ih step by simp
qed

lemma ReverseBytes_rev: "ReverseBytes data = rev data"
  unfolding ReverseBytes_def
  using reverse_loop [of "length data" data "replicate (length data) (CHR 0x00)"]
  by simp

lemma verifySolution_Ok:
  assumes "base64_decode L (Salt c) = Inr salt" "1 \<le> Difficulty c" "1 \<le> Threads c"
    and "KeyLen c \<noteq> 0"
  shows "verifySolution L s c nonce h =
           Ok (EncodeToString (argon2_IDKey L (Salt c @ nonce) salt (Difficulty c)
                        (Memory c) (Threads c) (KeyLen c)) = h
               \<and> HasPrefix (EncodeToString (argon2_IDKey L (Salt c @ nonce) salt (Difficulty c)
                        (Memory c) (Threads c) (KeyLen c))) (Target c))"
  using assms
  by (simp add: verifySolution_def IDKey_def hasValidPrefix_def Let_def not_less [symmetric])

lemma verifySolution_service:
  "verifySolution L s c nonce h = verifySolution L s' c nonce h"
  unfolding verifySolution_def hasValidPrefix_def ..

lemma VerifySolution_service:
  "VerifySolution L s w d cid nonce h fpr ip ua = VerifySolution L s' w d cid nonce h fpr ip ua"
  unfolding VerifySolution_def verifySolution_service [of L s _ _ _ s'] ..

lemma VerifySolution_records:
  assumes "get_challenge_fault w = None" "challenges d cid = Some c"
    and "\<not> ExpiresAt c < now_check w" "\<not> Solved c"
    and "verifySolution L s c nonce h = Ok valid"
    and "entropy w = Inr f" "create_solution_fault w = None"
  shows "solutions (snd (VerifySolution L s w d cid nonce h fpr ip ua)) =
           solutions d @
             [\<lparr>SolID = EncodeToString (map f [0..<16]), ChallengeID = cid, Nonce = nonce,
               Hash = h, Fingerprint = fpr, ClientIP = ip, UserAgentHdr = ua,
               SolCreatedAt = now_created w, Valid = valid\<rparr>]"
  using assms
  by (simp add: VerifySolution_def GetChallenge_def GenerateRandomBytes_def readRandom_def
      CreateSolution_def MarkChallengeSolved_def Let_def split: option.splits)

lemma VerifySolution_returns:
  assumes "get_challenge_fault w = None" "challenges d cid = Some c"
    and "\<not> ExpiresAt c < now_check w" "\<not> Solved c"
    and "verifySolution L s c nonce h = Ok valid"
    and "entropy w = Inr f" "create_solution_fault w = None"
    and "mark_solved_fault w = None"
  shows "fst (VerifySolution L s w d cid nonce h fpr ip ua) =
           Ok \<lparr>SolID = EncodeToString (map f [0..<16]), ChallengeID = cid, Nonce = nonce,
               Hash = h, Fingerprint = fpr, ClientIP = ip, UserAgentHdr = ua,
               SolCreatedAt = now_created w, Valid = valid\<rparr>"
  using assms
  by (simp add: VerifySolution_def GetChallenge_def GenerateRandomBytes_def readRandom_def
      CreateSolution_def MarkChallengeSolved_def Let_def split: option.splits)

lemma VerifySolution_zero_key_length:
  assumes "get_challenge_fault w = None" "challenges d cid = Some c"
    and "\<not> ExpiresAt c < now_check w" "\<not> Solved c"
    and "base64_decode L (Salt c) = Inr salt" "1 \<le> Difficulty c" "1 \<le> Threads c"
    and "KeyLen c = 0"
  shows "VerifySolution L s w d cid nonce h fpr ip ua =
           (Panic ''runtime error: invalid memory address or nil pointer dereference'', d)"
  using assms
  by (simp add: VerifySolution_def GetChallenge_def verifySolution_def IDKey_def Let_def
      not_less [symmetric])

lemma VerifySolution_solved:
  assumes "get_challenge_fault w = None" "challenges d cid = Some c" "Solved c"
  shows "VerifySolution L s w d cid nonce h fpr ip ua =
           (Err (if ExpiresAt c < now_check w then ''challenge expired''
                 else ''challenge already solved''), d)"
  using assms by (simp add: VerifySolution_def GetChallenge_def)

lemma VerifySolution_solved_unchanged:
  assumes "challenges d cid = Some c" "Solved c"
  shows "snd (VerifySolution L s w d cid nonce h fpr ip ua) = d
         \<and> (\<exists>e. fst (VerifySolution L s w d cid nonce h fpr ip ua) = Err e)"
  using assms
  by (cases "get_challenge_fault w") (simp_all add: VerifySolution_def GetChallenge_def)

lemma VerifySolution_frozen:
  assumes "challenges d cid = Some c" "Solved c"
  shows "challenges (snd (VerifySolution L s w d cid' nonce h fpr ip ua)) cid = Some c"
  using assms
  by (auto simp: VerifySolution_def GetChallenge_def GenerateRandomBytes_def readRandom_def
      CreateSolution_def MarkChallengeSolved_def Let_def
      split: option.splits sum.splits result.splits if_splits)

lemma sint_i64_of_int:
  assumes "- (2 ^ 63) \<le> k" "k < 2 ^ 63"
  shows "sint (word_of_int k :: i64) = k"
  using assms by (simp add: sint_sbintrunc' signed_take_bit_int_eq_self)

lemma sint_attempts:
  assumes "n \<le> 60"
  shows "sint (push_bit n (1 :: i64)) = 2 ^ n"
proof -
  have "(2::int) ^ n \<le> 2 ^ 60" using assms by (intro power_increasing) simp_all
  then have "(2::int) ^ n < 2 ^ 63" by simp
  moreover have "- (2 ^ 63) \<le> (2::int) ^ n"
  proof -
    have "(0::int) \<le> 2 ^ n" by simp
    then show ?thesis by (rule order_trans [rotated]) simp
  qed
  moreover have "push_bit n (1 :: i64) = word_of_int (2 ^ n)"
    by (simp add: push_bit_eq_mult)
  ultimately show ?thesis by (simp only: sint_i64_of_int)
qed

lemma sint_goDiv_attempts:
  assumes "n \<le> 60"
  shows "sint (goDiv (push_bit n (1 :: i64)) 100) = 2 ^ n div 100"
proof -
  have le: "(2::int) ^ n \<le> 2 ^ 60" using assms by (intro power_increasing) simp_all
  have nn: "(0::int) \<le> 2 ^ n div 100" by (simp add: pos_imp_zdiv_nonneg_iff)
  have "(2::int) ^ n div 100 \<le> 2 ^ n"
    by (rule order_trans [OF zdiv_mono2 [of "2 ^ n" 1 100]]) simp_all
  then have up: "(2::int) ^ n div 100 < 2 ^ 63" using le by simp
  have lo: "- (2 ^ 63) \<le> (2::int) ^ n div 100" using nn by simp
  have a: "sint (push_bit n (1 :: i64)) = 2 ^ n" using assms by (rule sint_attempts)
  have b: "sint (100 :: i64) = 100" by simp
  have "(2::int) ^ n sdiv 100 = 2 ^ n div 100"
    by (simp add: signed_divide_int_def)
  then have "sint (push_bit n (1 :: i64)) sdiv sint (100 :: i64) = 2 ^ n div 100"
    unfolding a b .
  then have "goDiv (push_bit n (1 :: i64)) 100 = word_of_int (2 ^ n div 100)"
    unfolding goDiv_def by (rule arg_cong)
  then show ?thesis using lo up by (simp only: sint_i64_of_int)
qed

lemma sint_times_Second:
  assumes "- 9223372036 \<le> sint (a :: i64)" "sint a \<le> 9223372036"
  shows "sint (a * Second) = sint a * 1000000000"
proof -
  have s: "sint Second = 1000000000" by (simp add: Second_def)
  have "sint (a * Second) = signed_take_bit 63 (sint a * 1000000000)"
    by (simp add: sint_word_ariths s)
  moreover have "- (2 ^ 63) \<le> sint a * 1000000000" using assms(1) by simp
  moreover have "sint a * 1000000000 < 2 ^ 63" using assms(2) by simp
  ultimately show ?thesis by (simp add: signed_take_bit_int_eq_self)
qed

lemma verifySolution_Ok_iff:
  "verifySolution L s c nonce h = Ok valid \<longleftrightarrow>
     (\<exists>salt. base64_decode L (Salt c) = Inr salt \<and> 1 \<le> Difficulty c \<and> 1 \<le> Threads c
        \<and> KeyLen c \<noteq> 0
        \<and> valid = (EncodeToString (argon2_IDKey L (Salt c @ nonce) salt (Difficulty c)
                        (Memory c) (Threads c) (KeyLen c)) = h
                   \<and> HasPrefix (EncodeToString (argon2_IDKey L (Salt c @ nonce) salt
                        (Difficulty c) (Memory c) (Threads c) (KeyLen c))) (Target c)))"
  by (auto simp: verifySolution_def IDKey_def hasValidPrefix_def Let_def not_less [symmetric]
      split: sum.splits)

lemma VerifySolution_rows:
  "solutions (snd (VerifySolution L s w d cid nonce h fpr ip ua)) = solutions d
   \<and> \<not> (\<exists>c valid f. get_challenge_fault w = None \<and> challenges d cid = Some c
           \<and> \<not> ExpiresAt c < now_check w \<and> \<not> Solved c
           \<and> verifySolution L s c nonce h = Ok valid
           \<and> entropy w = Inr f \<and> create_solution_fault w = None)
   \<or> (\<exists>c valid f sol. get_challenge_fault w = None \<and> challenges d cid = Some c
           \<and> \<not> ExpiresAt c < now_check w \<and> \<not> Solved c
           \<and> verifySolution L s c nonce h = Ok valid
           \<and> entropy w = Inr f \<and> create_solution_fault w = None
           \<and> Valid sol = valid
           \<and> solutions (snd (VerifySolution L s w d cid nonce h fpr ip ua)) = solutions d @ [sol])"
  by (auto simp: VerifySolution_def GetChallenge_def GenerateRandomBytes_def readRandom_def
      CreateSolution_def MarkChallengeSolved_def Let_def
      split: option.splits sum.splits result.splits if_splits)

lemma concat_rev_singletons: "concat (rev (map (\<lambda>c. [c]) xs)) = rev xs"
  by (induction xs) simp_all

section \<open>The claims\<close>

subsection \<open>C1: the admission predicate\<close>

text \<open>
  Counterexample for C1: the example challenge after its expiry, with the nonce \<open>7\<close> and
  the hash \<open>0063\<close> that is recomputed for it and starts with the target \<open>00\<close>. Both
  conjuncts of the predicate hold, yet the call fails with \<open>challenge expired\<close> and no
  attempt is recorded, valid or not.
\<close>

theorem expired_matching_hash_counterexample:
  "challenges exampleDb ''c1'' = Some exampleChallenge
   \<and> base64_decode exampleLib (Salt exampleChallenge) = Inr ''c2FsdA==''
   \<and> EncodeToString (argon2_IDKey exampleLib (Salt exampleChallenge @ ''7'') ''c2FsdA==''
         (Difficulty exampleChallenge) (Memory exampleChallenge) (Threads exampleChallenge)
         (KeyLen exampleChallenge)) = ''0063''
   \<and> HasPrefix ''0063'' (Target exampleChallenge)
   \<and> fst (VerifySolution exampleLib exampleService (exampleWorld\<lparr>now_check := 1301\<rparr>) exampleDb
            ''c1'' ''7'' ''0063'' ''{}'' ''10.0.0.1'' ''curl/8'') = Err ''challenge expired''
   \<and> solutions (snd (VerifySolution exampleLib exampleService (exampleWorld\<lparr>now_check := 1301\<rparr>)
            exampleDb ''c1'' ''7'' ''0063'' ''{}'' ''10.0.0.1'' ''curl/8'')) = []"
  by code_simp

text \<open>
  Claim C1, amended. For every challenge that the lookup finds, that is not expired and
  not solved, whose stored salt decodes and whose stored time cost, thread count and key
  length are not zero, and for every nonce and submitted hash: when the identifier is
  drawn and the row is inserted, \<open>VerifySolution\<close> appends exactly one row for this
  challenge, nonce and hash, and the row is marked valid if and only if the recomputed
  hash in lowercase hexadecimal equals the submitted hash and starts with the stored
  target prefix; if either fails, the row is marked invalid. Unless marking the challenge
  fails, the same row is returned.
\<close>

theorem recorded_valid_iff_admitted:
  assumes "get_challenge_fault w = None" "challenges d cid = Some c"
    and "\<not> ExpiresAt c < now_check w" "\<not> Solved c"
    and "base64_decode L (Salt c) = Inr salt" "1 \<le> Difficulty c" "1 \<le> Threads c"
    and "KeyLen c \<noteq> 0"
    and "entropy w = Inr f" "create_solution_fault w = None"
  shows "\<exists>sol. solutions (snd (VerifySolution L s w d cid nonce h fpr ip ua)) = solutions d @ [sol]
     \<and> ChallengeID sol = cid \<and> Nonce sol = nonce \<and> Hash sol = h
     \<and> (Valid sol \<longleftrightarrow>
          EncodeToString (argon2_IDKey L (Salt c @ nonce) salt (Difficulty c) (Memory c)
             (Threads c) (KeyLen c)) = h
          \<and> HasPrefix (EncodeToString (argon2_IDKey L (Salt c @ nonce) salt (Difficulty c)
             (Memory c) (Threads c) (KeyLen c))) (Target c))
     \<and> (mark_solved_fault w = None \<longrightarrow>
          fst (VerifySolution L s w d cid nonce h fpr ip ua) = Ok sol)"
proof -
  let ?valid = "EncodeToString (argon2_IDKey L (Salt c @ nonce) salt (Difficulty c) (Memory c)
             (Threads c) (KeyLen c)) = h
          \<and> HasPrefix (EncodeToString (argon2_IDKey L (Salt c @ nonce) salt (Difficulty c)
             (Memory c) (Threads c) (KeyLen c))) (Target c)"
  let ?sol = "\<lparr>SolID = EncodeToString (map f [0..<16]), ChallengeID = cid, Nonce = nonce,
               Hash = h, Fingerprint = fpr, ClientIP = ip, UserAgentHdr = ua,
               SolCreatedAt = now_created w, Valid = ?valid\<rparr>"
  have v: "verifySolution L s c nonce h = Ok ?valid"
    using assms(5-8) by (rule verifySolution_Ok)
  have rows: "solutions (snd (VerifySolution L s w d cid nonce h fpr ip ua)) = solutions d @ [?sol]"
    using assms(1-4) v assms(9,10) by (rule VerifySolution_records)
  have ret: "mark_solved_fault w = None \<longrightarrow>
          fst (VerifySolution L s w d cid nonce h fpr ip ua) = Ok ?sol"
    using VerifySolution_returns [OF assms(1-4) v assms(9,10)] by blast
  show ?thesis
    by (rule exI [of _ ?sol]) (simp add: rows ret)
qed

text \<open>
  Witness for C1: the example challenge with target \<open>00\<close>, nonce \<open>7\<close> and the hash
  \<open>0063\<close> that the example library computes; the row is recorded as valid.
\<close>

theorem recorded_valid_iff_admitted_witness:
  "get_challenge_fault exampleWorld = None
   \<and> challenges exampleDb ''c1'' = Some exampleChallenge
   \<and> \<not> ExpiresAt exampleChallenge < now_check exampleWorld
   \<and> \<not> Solved exampleChallenge
   \<and> base64_decode exampleLib (Salt exampleChallenge) = Inr ''c2FsdA==''
   \<and> 1 \<le> Difficulty exampleChallenge \<and> 1 \<le> Threads exampleChallenge
   \<and> KeyLen exampleChallenge \<noteq> 0
   \<and> entropy exampleWorld = Inr (\<lambda>i. CHR ''n'')
   \<and> create_solution_fault exampleWorld = None
   \<and> (\<exists>sol. solutions (snd (VerifySolution exampleLib exampleService exampleWorld exampleDb
                 ''c1'' ''7'' ''0063'' ''{}'' ''10.0.0.1'' ''curl/8'')) = solutions exampleDb @ [sol]
          \<and> Valid sol)"
proof -
  have a: "get_challenge_fault exampleWorld = None" by (simp add: exampleWorld_def)
  have b: "challenges exampleDb ''c1'' = Some exampleChallenge" by (simp add: exampleDb_def)
  have c: "\<not> ExpiresAt exampleChallenge < now_check exampleWorld"
    by (simp add: exampleChallenge_def exampleWorld_def)
  have d: "\<not> Solved exampleChallenge" by (simp add: exampleChallenge_def)
  have e: "base64_decode exampleLib (Salt exampleChallenge) = Inr ''c2FsdA==''"
    by (simp add: exampleLib_def exampleChallenge_def)
  have f: "1 \<le> Difficulty exampleChallenge" by (simp add: exampleChallenge_def)
  have g: "1 \<le> Threads exampleChallenge" by (simp add: exampleChallenge_def)
  have g': "KeyLen exampleChallenge \<noteq> 0" by (simp add: exampleChallenge_def)
  have h: "entropy exampleWorld = Inr (\<lambda>i. CHR ''n'')" by (simp add: exampleWorld_def)
  have i: "create_solution_fault exampleWorld = None" by (simp add: exampleWorld_def)
  have j: "EncodeToString (argon2_IDKey exampleLib (Salt exampleChallenge @ ''7'') ''c2FsdA==''
             (Difficulty exampleChallenge) (Memory exampleChallenge) (Threads exampleChallenge)
             (KeyLen exampleChallenge)) = ''0063''"
    by code_simp
  have k: "HasPrefix (EncodeToString (argon2_IDKey exampleLib (Salt exampleChallenge @ ''7'')
             ''c2FsdA=='' (Difficulty exampleChallenge) (Memory exampleChallenge)
             (Threads exampleChallenge) (KeyLen exampleChallenge))) (Target exampleChallenge)"
    by code_simp
  from recorded_valid_iff_admitted [OF a b c d e f g g' h i, of exampleService "''7''" "''0063''"
      "''{}''" "''10.0.0.1''" "''curl/8''"] j k
  have "\<exists>sol. solutions (snd (VerifySolution exampleLib exampleService exampleWorld exampleDb
                 ''c1'' ''7'' ''0063'' ''{}'' ''10.0.0.1'' ''curl/8'')) = solutions exampleDb @ [sol]
          \<and> Valid sol"
    by blast
  with a b c d e f g g' h i show ?thesis by blast
qed

subsection \<open>C2: a solved challenge is not verified again\<close>

text \<open>
  Counterexample for C2: a challenge that is solved and whose expiry has passed. The
  expiry test comes first in \<open>VerifySolution\<close>, so the call fails with
  \<open>challenge expired\<close>, not with \<open>challenge already solved\<close>.
\<close>

theorem solved_and_expired_counterexample:
  "challenges solvedDb ''c1'' = Some (exampleChallenge\<lparr>Solved := True, SolvedAt := Some 1200\<rparr>)
   \<and> Solved (exampleChallenge\<lparr>Solved := True, SolvedAt := Some 1200\<rparr>)
   \<and> fst (VerifySolution exampleLib exampleService (exampleWorld\<lparr>now_check := 1301\<rparr>) solvedDb
            ''c1'' ''7'' ''0063'' ''{}'' ''10.0.0.1'' ''curl/8'') = Err ''challenge expired''"
  by code_simp

text \<open>
  Claim C2, amended. For a challenge whose solved flag is set, every call of
  \<open>VerifySolution\<close> for its id fails, whatever the nonce, the hash and the hash function,
  and leaves the store as it was: no row is added and the challenge is not marked again.
  When the lookup succeeds the error is \<open>challenge expired\<close> if the expiry has passed
  and \<open>challenge already solved\<close> otherwise. No call, for any id, changes the record of
  a solved challenge.
\<close>

theorem solved_challenge_rejected:
  assumes "challenges d cid = Some c" "Solved c"
  shows "snd (VerifySolution L s w d cid nonce h fpr ip ua) = d
     \<and> (\<exists>e. fst (VerifySolution L s w d cid nonce h fpr ip ua) = Err e)
     \<and> (get_challenge_fault w = None \<longrightarrow>
          fst (VerifySolution L s w d cid nonce h fpr ip ua) =
            Err (if ExpiresAt c < now_check w then ''challenge expired''
                 else ''challenge already solved''))
     \<and> challenges (snd (VerifySolution L s w d cid' nonce' h' fpr' ip' ua')) cid = Some c"
  using VerifySolution_solved_unchanged [OF assms, of L s w nonce h fpr ip ua]
    VerifySolution_solved [OF _ assms, of w L s nonce h fpr ip ua]
    VerifySolution_frozen [OF assms, of L s w cid' nonce' h' fpr' ip' ua']
  by simp

text \<open>
  Witness for C2: the solved example challenge before its expiry; the call fails with
  \<open>challenge already solved\<close> and the store is unchanged.
\<close>

theorem solved_challenge_rejected_witness:
  "challenges solvedDb ''c1'' = Some (exampleChallenge\<lparr>Solved := True, SolvedAt := Some 1200\<rparr>)
   \<and> Solved (exampleChallenge\<lparr>Solved := True, SolvedAt := Some 1200\<rparr>)
   \<and> get_challenge_fault exampleWorld = None
   \<and> VerifySolution exampleLib exampleService exampleWorld solvedDb
        ''c1'' ''7'' ''0063'' ''{}'' ''10.0.0.1'' ''curl/8''
       = (Err ''challenge already solved'', solvedDb)"
proof -
  let ?c = "exampleChallenge\<lparr>Solved := True, SolvedAt := Some 1200\<rparr>"
  have a: "challenges solvedDb ''c1'' = Some ?c" by (simp add: solvedDb_def)
  have b: "Solved ?c" by simp
  have c: "get_challenge_fault exampleWorld = None" by (simp add: exampleWorld_def)
  have e: "\<not> ExpiresAt ?c < now_check exampleWorld"
    by (simp add: exampleChallenge_def exampleWorld_def)
  from solved_challenge_rejected [OF a b, of exampleLib exampleService exampleWorld "''7''"
      "''0063''" "''{}''" "''10.0.0.1''" "''curl/8''"] c e
  have "VerifySolution exampleLib exampleService exampleWorld solvedDb
        ''c1'' ''7'' ''0063'' ''{}'' ''10.0.0.1'' ''curl/8''
       = (Err ''challenge already solved'', solvedDb)"
    by (simp add: prod_eq_iff)
  with a b c show ?thesis by blast
qed

subsection \<open>C3: which attempts leave a Solution row\<close>

text \<open>
  Counterexample for C3: a call for an id that no challenge has fails with
  \<open>challenge not found\<close> and inserts no row.
\<close>

theorem unknown_challenge_counterexample:
  "challenges exampleDb ''c9'' = None
   \<and> fst (VerifySolution exampleLib exampleService exampleWorld exampleDb
            ''c9'' ''7'' ''0063'' ''{}'' ''10.0.0.1'' ''curl/8'') = Err ''challenge not found''
   \<and> solutions (snd (VerifySolution exampleLib exampleService exampleWorld exampleDb
            ''c9'' ''7'' ''0063'' ''{}'' ''10.0.0.1'' ''curl/8'')) = []"
  by code_simp

text \<open>
  Claim C3, amended. \<open>VerifySolution\<close> inserts a row exactly when the lookup succeeds,
  the challenge is found, not expired and not solved, its salt decodes, its time cost,
  thread count and key length are not zero, the identifier is drawn and the insert
  succeeds; it then
  inserts one row, whose validity flag is the admission predicate. In every other case the
  rows are unchanged. A request whose fingerprint fails to decode or to validate ends in
  the handler and leaves the store unchanged.
\<close>

theorem solution_row_persisted_iff:
  "(length (solutions (snd (VerifySolution L s w d cid nonce h fpr ip ua)))
      = Suc (length (solutions d))
    \<longleftrightarrow> (\<exists>c salt f. get_challenge_fault w = None \<and> challenges d cid = Some c
           \<and> \<not> ExpiresAt c < now_check w \<and> \<not> Solved c
           \<and> base64_decode L (Salt c) = Inr salt \<and> 1 \<le> Difficulty c \<and> 1 \<le> Threads c
           \<and> KeyLen c \<noteq> 0
           \<and> entropy w = Inr f \<and> create_solution_fault w = None))
   \<and> (solutions (snd (VerifySolution L s w d cid nonce h fpr ip ua)) = solutions d
      \<or> (\<exists>c salt sol. challenges d cid = Some c \<and> base64_decode L (Salt c) = Inr salt
            \<and> solutions (snd (VerifySolution L s w d cid nonce h fpr ip ua)) = solutions d @ [sol]
            \<and> (Valid sol \<longleftrightarrow>
                 EncodeToString (argon2_IDKey L (Salt c @ nonce) salt (Difficulty c) (Memory c)
                    (Threads c) (KeyLen c)) = h
                 \<and> HasPrefix (EncodeToString (argon2_IDKey L (Salt c @ nonce) salt
                    (Difficulty c) (Memory c) (Threads c) (KeyLen c))) (Target c))))
   \<and> (\<forall>req e. Body r = Some req
         \<and> ValidateFingerprint L (fingerprintValidator hdl) (ReqFingerprint req) = Err e
         \<longrightarrow> snd (VerifyHandler L hdl w d r) = d)"
proof (intro conjI)
  show "length (solutions (snd (VerifySolution L s w d cid nonce h fpr ip ua)))
      = Suc (length (solutions d))
    \<longleftrightarrow> (\<exists>c salt f. get_challenge_fault w = None \<and> challenges d cid = Some c
           \<and> \<not> ExpiresAt c < now_check w \<and> \<not> Solved c
           \<and> base64_decode L (Salt c) = Inr salt \<and> 1 \<le> Difficulty c \<and> 1 \<le> Threads c
           \<and> KeyLen c \<noteq> 0
           \<and> entropy w = Inr f \<and> create_solution_fault w = None)"
    using VerifySolution_rows [of L s w d cid nonce h fpr ip ua]
    unfolding verifySolution_Ok_iff by (elim disjE) (fastforce+)
next
  show "solutions (snd (VerifySolution L s w d cid nonce h fpr ip ua)) = solutions d
      \<or> (\<exists>c salt sol. challenges d cid = Some c \<and> base64_decode L (Salt c) = Inr salt
            \<and> solutions (snd (VerifySolution L s w d cid nonce h fpr ip ua)) = solutions d @ [sol]
            \<and> (Valid sol \<longleftrightarrow>
                 EncodeToString (argon2_IDKey L (Salt c @ nonce) salt (Difficulty c) (Memory c)
                    (Threads c) (KeyLen c)) = h
                 \<and> HasPrefix (EncodeToString (argon2_IDKey L (Salt c @ nonce) salt
                    (Difficulty c) (Memory c) (Threads c) (KeyLen c))) (Target c)))"
    using VerifySolution_rows [of L s w d cid nonce h fpr ip ua]
    unfolding verifySolution_Ok_iff by (elim disjE) (fastforce+)
next
  show "\<forall>req e. Body r = Some req
         \<and> ValidateFingerprint L (fingerprintValidator hdl) (ReqFingerprint req) = Err e
         \<longrightarrow> snd (VerifyHandler L hdl w d r) = d"
    by (simp add: VerifyHandler_def)
qed

text \<open>
  Witness for C3: the request with the tampered fingerprint leaves the example store
  unchanged; a call for the example challenge with the wrong hash \<open>ffff\<close> adds a row;
  the same call after the expiry adds none.
\<close>

theorem solution_row_persisted_iff_witness:
  "Body tamperedRequest =
     Some \<lparr>ReqChallengeID = ''c1'', ReqNonce = ''7'', ReqHash = ''0063'',
           ReqFingerprint = ''nnnnnnnnnnnn)46_68x xuniL ;11X( 0.5/allizoM1''\<rparr>
   \<and> ValidateFingerprint exampleLib (fingerprintValidator exampleHandler)
         ''nnnnnnnnnnnn)46_68x xuniL ;11X( 0.5/allizoM1''
       = Err ''failed to decrypt fingerprint: failed to decrypt: cipher: message authentication failed''
   \<and> snd (VerifyHandler exampleLib exampleHandler exampleWorld exampleDb tamperedRequest)
       = exampleDb
   \<and> length (solutions (snd (VerifySolution exampleLib exampleService exampleWorld exampleDb
         ''c1'' ''7'' ''ffff'' ''{}'' ''10.0.0.1'' ''curl/8''))) = Suc (length (solutions exampleDb))
   \<and> length (solutions (snd (VerifySolution exampleLib exampleService
         (exampleWorld\<lparr>now_check := 1301\<rparr>) exampleDb
         ''c1'' ''7'' ''ffff'' ''{}'' ''10.0.0.1'' ''curl/8''))) \<noteq> Suc (length (solutions exampleDb))"
proof -
  let ?q = "\<lparr>ReqChallengeID = ''c1'', ReqNonce = ''7'', ReqHash = ''0063'',
            ReqFingerprint = ''nnnnnnnnnnnn)46_68x xuniL ;11X( 0.5/allizoM1''\<rparr>"
  let ?late = "exampleWorld\<lparr>now_check := 1301\<rparr>"
  have a: "Body tamperedRequest = Some ?q" by (simp add: tamperedRequest_def)
  have b: "ValidateFingerprint exampleLib (fingerprintValidator exampleHandler)
             ''nnnnnnnnnnnn)46_68x xuniL ;11X( 0.5/allizoM1''
           = Err ''failed to decrypt fingerprint: failed to decrypt: cipher: message authentication failed''"
    by code_simp
  have b': "ValidateFingerprint exampleLib (fingerprintValidator exampleHandler)
              (ReqFingerprint ?q)
           = Err ''failed to decrypt fingerprint: failed to decrypt: cipher: message authentication failed''"
    using b by simp
  from solution_row_persisted_iff [of exampleLib _ exampleWorld exampleDb _ _ _ _ _ _
      tamperedRequest exampleHandler] a b'
  have handler: "snd (VerifyHandler exampleLib exampleHandler exampleWorld exampleDb tamperedRequest)
          = exampleDb"
    by blast
  have reach: "\<exists>c salt f. get_challenge_fault exampleWorld = None
           \<and> challenges exampleDb ''c1'' = Some c
           \<and> \<not> ExpiresAt c < now_check exampleWorld \<and> \<not> Solved c
           \<and> base64_decode exampleLib (Salt c) = Inr salt \<and> 1 \<le> Difficulty c \<and> 1 \<le> Threads c
           \<and> KeyLen c \<noteq> 0
           \<and> entropy exampleWorld = Inr f \<and> create_solution_fault exampleWorld = None"
    by (simp add: exampleWorld_def exampleDb_def exampleChallenge_def exampleLib_def)
  from solution_row_persisted_iff [of exampleLib exampleService exampleWorld exampleDb "''c1''"
      "''7''" "''ffff''" "''{}''" "''10.0.0.1''" "''curl/8''"] reach
  have mismatch: "length (solutions (snd (VerifySolution exampleLib exampleService exampleWorld
         exampleDb ''c1'' ''7'' ''ffff'' ''{}'' ''10.0.0.1'' ''curl/8''))) = Suc (length (solutions exampleDb))"
    by blast
  have noreach: "\<not> (\<exists>c salt f. get_challenge_fault ?late = None
           \<and> challenges exampleDb ''c1'' = Some c
           \<and> \<not> ExpiresAt c < now_check ?late \<and> \<not> Solved c
           \<and> base64_decode exampleLib (Salt c) = Inr salt \<and> 1 \<le> Difficulty c \<and> 1 \<le> Threads c
           \<and> KeyLen c \<noteq> 0
           \<and> entropy ?late = Inr f \<and> create_solution_fault ?late = None)"
    by (simp add: exampleDb_def exampleChallenge_def)
  from solution_row_persisted_iff [of exampleLib exampleService ?late exampleDb "''c1''"
      "''7''" "''ffff''" "''{}''" "''10.0.0.1''" "''curl/8''"] noreach
  have expired: "length (solutions (snd (VerifySolution exampleLib exampleService ?late
         exampleDb ''c1'' ''7'' ''ffff'' ''{}'' ''10.0.0.1'' ''curl/8''))) \<noteq> Suc (length (solutions exampleDb))"
    by blast
  from a b handler mismatch expired show ?thesis by blast
qed

subsection \<open>C4: what the recomputed hash is computed from\<close>

text \<open>
  Claim C4. \<open>verifySolution\<close> accepts a hash exactly when the stored salt decodes, the
  stored time cost, thread count and key length are not zero (so that Argon2id returns),
  and the hash is the lowercase hexadecimal
  form of Argon2id applied to the stored salt text followed by the nonce, with the
  decoded salt and the challenge's own time, memory, threads and key length, and starts
  with the stored target. The result is a function of the stored salt, the stored cost
  parameters, the stored target, the nonce and the submitted hash alone: it is the same
  under any other service configuration and for any challenge that agrees on these
  fields.
\<close>

theorem recomputed_from_stored_parameters:
  "(verifySolution L s c nonce h = Ok True \<longleftrightarrow>
      (\<exists>salt. base64_decode L (Salt c) = Inr salt \<and> 1 \<le> Difficulty c \<and> 1 \<le> Threads c
         \<and> KeyLen c \<noteq> 0
         \<and> h = EncodeToString (argon2_IDKey L (Salt c @ nonce) salt (Difficulty c) (Memory c)
                  (Threads c) (KeyLen c))
         \<and> HasPrefix h (Target c)))
   \<and> (Salt c' = Salt c \<and> Difficulty c' = Difficulty c \<and> Memory c' = Memory c
        \<and> Threads c' = Threads c \<and> KeyLen c' = KeyLen c \<and> Target c' = Target c
      \<longrightarrow> verifySolution L s' c' nonce h = verifySolution L s c nonce h)"
proof (intro conjI impI)
  show "verifySolution L s c nonce h = Ok True \<longleftrightarrow>
      (\<exists>salt. base64_decode L (Salt c) = Inr salt \<and> 1 \<le> Difficulty c \<and> 1 \<le> Threads c
         \<and> KeyLen c \<noteq> 0
         \<and> h = EncodeToString (argon2_IDKey L (Salt c @ nonce) salt (Difficulty c) (Memory c)
                  (Threads c) (KeyLen c))
         \<and> HasPrefix h (Target c))"
    by (auto simp: verifySolution_def IDKey_def hasValidPrefix_def Let_def not_less [symmetric]
        split: sum.splits)
next
  assume "Salt c' = Salt c \<and> Difficulty c' = Difficulty c \<and> Memory c' = Memory c
        \<and> Threads c' = Threads c \<and> KeyLen c' = KeyLen c \<and> Target c' = Target c"
  then show "verifySolution L s' c' nonce h = verifySolution L s c nonce h"
    unfolding verifySolution_def hasValidPrefix_def
    by (simp add: Let_def split: sum.splits result.splits)
qed

text \<open>
  Witness for C4: the example challenge and a copy with another id and expiry, checked
  under two different configurations.
\<close>

theorem recomputed_from_stored_parameters_witness:
  "Salt (exampleChallenge\<lparr>ID := ''c2'', ExpiresAt := 2000\<rparr>) = Salt exampleChallenge
   \<and> Difficulty (exampleChallenge\<lparr>ID := ''c2'', ExpiresAt := 2000\<rparr>) = Difficulty exampleChallenge
   \<and> Memory (exampleChallenge\<lparr>ID := ''c2'', ExpiresAt := 2000\<rparr>) = Memory exampleChallenge
   \<and> Threads (exampleChallenge\<lparr>ID := ''c2'', ExpiresAt := 2000\<rparr>) = Threads exampleChallenge
   \<and> KeyLen (exampleChallenge\<lparr>ID := ''c2'', ExpiresAt := 2000\<rparr>) = KeyLen exampleChallenge
   \<and> Target (exampleChallenge\<lparr>ID := ''c2'', ExpiresAt := 2000\<rparr>) = Target exampleChallenge
   \<and> verifySolution exampleLib \<lparr>cfg = overflowConfig\<rparr>
        (exampleChallenge\<lparr>ID := ''c2'', ExpiresAt := 2000\<rparr>) ''7'' ''0063''
       = verifySolution exampleLib exampleService exampleChallenge ''7'' ''0063''"
  using recomputed_from_stored_parameters [of exampleLib exampleService exampleChallenge
      "''7''" "''0063''" "exampleChallenge\<lparr>ID := ''c2'', ExpiresAt := 2000\<rparr>"
      "\<lparr>cfg = overflowConfig\<rparr>"]
  by simp

subsection \<open>C5: the expiry boundary\<close>

text \<open>
  Counterexample for C5: a call whose clock reads exactly the expiry instant is not
  rejected as expired; here it is verified and recorded as valid.
\<close>

theorem boundary_not_expired_counterexample:
  "now_check (exampleWorld\<lparr>now_check := 1300\<rparr>) = ExpiresAt exampleChallenge
   \<and> challenges exampleDb ''c1'' = Some exampleChallenge
   \<and> fst (VerifySolution exampleLib exampleService (exampleWorld\<lparr>now_check := 1300\<rparr>) exampleDb
            ''c1'' ''7'' ''0063'' ''{}'' ''10.0.0.1'' ''curl/8'')
       = Ok \<lparr>SolID = ''6e6e6e6e6e6e6e6e6e6e6e6e6e6e6e6e'', ChallengeID = ''c1'', Nonce = ''7'',
             Hash = ''0063'', Fingerprint = ''{}'', ClientIP = ''10.0.0.1'',
             UserAgentHdr = ''curl/8'', SolCreatedAt = 1101, Valid = True\<rparr>"
  by code_simp

text \<open>
  Claim C5, amended. For a challenge that the lookup finds, \<open>VerifySolution\<close> fails with
  \<open>challenge expired\<close> if and only if the clock reads strictly later than the expiry
  instant; a call at exactly the expiry instant is not treated as expired.
\<close>

theorem expired_iff_strictly_after:
  assumes "get_challenge_fault w = None" "challenges d cid = Some c"
  shows "fst (VerifySolution L s w d cid nonce h fpr ip ua) = Err ''challenge expired''
         \<longleftrightarrow> ExpiresAt c < now_check w"
  using assms
  by (auto simp: VerifySolution_def GetChallenge_def GenerateRandomBytes_def readRandom_def
      CreateSolution_def MarkChallengeSolved_def Let_def
      split: option.splits sum.splits result.splits if_splits)

text \<open>
  Witness for C5: one instant after the expiry of the example challenge the call fails
  with \<open>challenge expired\<close>.
\<close>

theorem expired_iff_strictly_after_witness:
  "get_challenge_fault (exampleWorld\<lparr>now_check := 1301\<rparr>) = None
   \<and> challenges exampleDb ''c1'' = Some exampleChallenge
   \<and> ExpiresAt exampleChallenge < now_check (exampleWorld\<lparr>now_check := 1301\<rparr>)
   \<and> fst (VerifySolution exampleLib exampleService (exampleWorld\<lparr>now_check := 1301\<rparr>) exampleDb
            ''c1'' ''7'' ''0063'' ''{}'' ''10.0.0.1'' ''curl/8'') = Err ''challenge expired''"
proof -
  let ?w = "exampleWorld\<lparr>now_check := 1301\<rparr>"
  have a: "get_challenge_fault ?w = None" by (simp add: exampleWorld_def)
  have b: "challenges exampleDb ''c1'' = Some exampleChallenge" by (simp add: exampleDb_def)
  have c: "ExpiresAt exampleChallenge < now_check ?w" by (simp add: exampleChallenge_def)
  from expired_iff_strictly_after [OF a b, of exampleLib exampleService "''7''" "''0063''"
      "''{}''" "''10.0.0.1''" "''curl/8''"] c
  have "fst (VerifySolution exampleLib exampleService ?w exampleDb
            ''c1'' ''7'' ''0063'' ''{}'' ''10.0.0.1'' ''curl/8'') = Err ''challenge expired''"
    by blast
  with a b c show ?thesis by blast
qed

subsection \<open>C6: encoding and decoding a fingerprint\<close>

text \<open>
  Counterexample for C6: the example fingerprint with a pixel ratio that is NaN. Both
  comparisons of \<open>validatePixelRatio\<close> are false on a NaN, so the record passes every
  field rule; \<open>json.Marshal\<close> refuses it, so the encoder returns an error and no token,
  and there is nothing to decode.
\<close>

theorem nan_pixel_ratio_counterexample:
  "validateFingerprintFields (exampleFingerprint\<lparr>PixelRatio := NaN\<rparr>) = None
   \<and> length exampleKey = 32
   \<and> collectFingerprint exampleLib exampleWorld exampleKey
         (exampleFingerprint\<lparr>PixelRatio := NaN\<rparr>) = Err ''Failed to serialize fingerprint''"
  by code_simp

text \<open>
  Claim C6, amended. For a fingerprint that passes the field rules, that \<open>json.Marshal\<close>
  serialises and whose serialisation \<open>json.Unmarshal\<close> parses back to it, and for a 32-byte
  key, the token the client builds (serialise, encode, reverse, encrypt) is decoded by
  \<open>ValidateFingerprint\<close> (decrypt, reverse, decode, parse) to the same fingerprint. The
  other library functions are taken with their contracts: AES-GCM accepts a 32-byte key
  and opens what it sealed under the same key and nonce, base64 decoding inverts encoding
  and its text is one byte for each rune, and the random source delivers.
\<close>

theorem fingerprint_roundtrip:
  assumes valid: "validateFingerprintFields fp = None"
    and keylen: "length (key v) = 32"
    and aes: "\<forall>k. length k = 32 \<longrightarrow> aes_NewCipher L k = None \<and> cipher_NewGCM L k = None"
    and rnd: "entropy w = Inr f"
    and marshal: "Marshal L fp = Inr j"
    and unmarshal: "json_unmarshal L j = Inr fp"
    and ascii: "utf8_runes L (base64_encode L j) = map (\<lambda>c. [c]) (base64_encode L j)"
    and b64: "\<forall>x. base64_decode L (base64_encode L x) = Inr x"
    and aead: "\<forall>n p. length n = 12 \<longrightarrow> gcm_open L (key v) n (gcm_seal L (key v) n p) = Inr p"
  shows "\<exists>token. collectFingerprint L w (key v) fp = Ok token
                \<and> ValidateFingerprint L v token = Ok fp"
proof -
  let ?b64 = "base64_encode L j"
  let ?nonce = "map f [0..<12]"
  let ?sealed = "gcm_seal L (key v) ?nonce (rev ?b64)"
  let ?token = "base64_encode L (?nonce @ ?sealed)"
  have c1: "aes_NewCipher L (key v) = None" and c2: "cipher_NewGCM L (key v) = None"
    using aes keylen by blast+
  have revs: "reverseString L ?b64 = rev ?b64"
    unfolding reverseString_def ascii by (rule concat_rev_singletons)
  have enc: "collectFingerprint L w (key v) fp = Ok ?token"
    by (simp add: collectFingerprint_def marshal revs Encrypt_def c1 c2 readRandom_def rnd
        NonceSize_def Let_def)
  have len: "length ?nonce = 12" by simp
  have opened: "gcm_open L (key v) ?nonce ?sealed = Inr (rev ?b64)"
    using aead len by blast
  have dec: "Decrypt L ?token (key v) = Ok (rev ?b64)"
    using b64 opened
    by (simp add: Decrypt_def c1 c2 NonceSize_def sliceTo_def sliceFrom_def Open_def)
  have "ValidateFingerprint L v ?token = Ok fp"
    using b64
    by (simp add: ValidateFingerprint_def dec ReverseBytes_rev DecodeBase64_def unmarshal valid)
  with enc show ?thesis by blast
qed

text \<open>
  Witness for C6: the example fingerprint under the example library and key.
\<close>

theorem fingerprint_roundtrip_witness:
  "validateFingerprintFields exampleFingerprint = None
   \<and> length (key exampleValidator) = 32
   \<and> entropy exampleWorld = Inr (\<lambda>i. CHR ''n'')
   \<and> Marshal exampleLib exampleFingerprint = Inr ''Mozilla/5.0 (X11; Linux x86_64)''
   \<and> json_unmarshal exampleLib ''Mozilla/5.0 (X11; Linux x86_64)'' = Inr exampleFingerprint
   \<and> (\<exists>token. collectFingerprint exampleLib exampleWorld (key exampleValidator) exampleFingerprint
                  = Ok token
              \<and> ValidateFingerprint exampleLib exampleValidator token = Ok exampleFingerprint)"
proof -
  have a: "validateFingerprintFields exampleFingerprint = None" by code_simp
  have b: "length (key exampleValidator) = 32" by (simp add: exampleValidator_def exampleKey_def)
  have c: "\<forall>k. length k = 32 \<longrightarrow>
             aes_NewCipher exampleLib k = None \<and> cipher_NewGCM exampleLib k = None"
    by (simp add: exampleLib_def)
  have d: "entropy exampleWorld = Inr (\<lambda>i. CHR ''n'')" by (simp add: exampleWorld_def)
  have e: "Marshal exampleLib exampleFingerprint = Inr ''Mozilla/5.0 (X11; Linux x86_64)''"
    by (simp add: Marshal_def exampleLib_def exampleFingerprint_def)
  have f: "json_unmarshal exampleLib ''Mozilla/5.0 (X11; Linux x86_64)'' = Inr exampleFingerprint"
    by (simp add: exampleLib_def exampleFingerprint_def)
  have g: "utf8_runes exampleLib (base64_encode exampleLib ''Mozilla/5.0 (X11; Linux x86_64)'')
           = map (\<lambda>c. [c]) (base64_encode exampleLib ''Mozilla/5.0 (X11; Linux x86_64)'')"
    by (simp add: exampleLib_def)
  have h: "\<forall>x. base64_decode exampleLib (base64_encode exampleLib x) = Inr x"
    by (simp add: exampleLib_def)
  have i: "\<forall>n p. length n = 12 \<longrightarrow>
             gcm_open exampleLib (key exampleValidator) n
               (gcm_seal exampleLib (key exampleValidator) n p) = Inr p"
    by (simp add: exampleLib_def exampleValidator_def exampleKey_def)
  from fingerprint_roundtrip [OF a b c d e f g h i] a b d e f show ?thesis by blast
qed

subsection \<open>C7: fingerprint failures look the same to the client\<close>

text \<open>
  Claim C7. Take two POST requests with well-formed bodies, one whose fingerprint token
  fails authenticated decryption and one whose token decrypts and parses to a fingerprint
  that breaks a field rule. The handler answers both with the same response, validity
  false and the message \<open>Fingerprint validation failed\<close>, and leaves the store unchanged
  in both cases.
\<close>

theorem fingerprint_failures_indistinguishable:
  assumes "Method r1 = ''POST''" "Body r1 = Some q1"
    and "Method r2 = ''POST''" "Body r2 = Some q2"
    and "Decrypt L (ReqFingerprint q1) (key (fingerprintValidator hdl)) = Err e"
    and "Decrypt L (ReqFingerprint q2) (key (fingerprintValidator hdl)) = Ok plaintext"
    and "DecodeBase64 L (ReverseBytes plaintext) = Inr j"
    and "json_unmarshal L j = Inr fp"
    and "validateFingerprintFields fp = Some m"
  shows "VerifyHandler L hdl w1 d1 r1 =
           (Json \<lparr>RespValid = False, Message = ''Fingerprint validation failed''\<rparr>, d1)
       \<and> VerifyHandler L hdl w2 d2 r2 =
           (Json \<lparr>RespValid = False, Message = ''Fingerprint validation failed''\<rparr>, d2)
       \<and> fst (VerifyHandler L hdl w1 d1 r1) = fst (VerifyHandler L hdl w2 d2 r2)"
proof -
  have v1: "ValidateFingerprint L (fingerprintValidator hdl) (ReqFingerprint q1)
              = Err (''failed to decrypt fingerprint: '' @ e)"
    using assms(5) by (simp add: ValidateFingerprint_def)
  have v2: "ValidateFingerprint L (fingerprintValidator hdl) (ReqFingerprint q2)
              = Err (''fingerprint validation failed: '' @ m)"
    using assms(6-9) by (simp add: ValidateFingerprint_def)
  have h1: "VerifyHandler L hdl w1 d1 r1 =
           (Json \<lparr>RespValid = False, Message = ''Fingerprint validation failed''\<rparr>, d1)"
    using assms(1,2) v1 by (simp add: VerifyHandler_def)
  have h2: "VerifyHandler L hdl w2 d2 r2 =
           (Json \<lparr>RespValid = False, Message = ''Fingerprint validation failed''\<rparr>, d2)"
    using assms(3,4) v2 by (simp add: VerifyHandler_def)
  show ?thesis using h1 h2 by simp
qed

text \<open>
  Witness for C7: the tampered request and the request with a malformed fingerprint.
\<close>

theorem fingerprint_failures_indistinguishable_witness:
  "Decrypt exampleLib ''nnnnnnnnnnnn)46_68x xuniL ;11X( 0.5/allizoM1'' exampleKey
     = Err ''failed to decrypt: cipher: message authentication failed''
   \<and> Decrypt exampleLib ''nnnnnnnnnnnndab0'' exampleKey = Ok ''dab''
   \<and> validateFingerprintFields (exampleFingerprint\<lparr>UserAgent := ''bad''\<rparr>)
       = Some ''invalid user agent: user agent length out of range''
   \<and> fst (VerifyHandler exampleLib exampleHandler exampleWorld exampleDb tamperedRequest)
       = fst (VerifyHandler exampleLib exampleHandler exampleWorld exampleDb malformedRequest)"
proof -
  let ?t1 = "''nnnnnnnnnnnn)46_68x xuniL ;11X( 0.5/allizoM1''"
  let ?t2 = "''nnnnnnnnnnnndab0''"
  let ?q1 = "\<lparr>ReqChallengeID = ''c1'', ReqNonce = ''7'', ReqHash = ''0063'', ReqFingerprint = ?t1\<rparr>"
  let ?q2 = "\<lparr>ReqChallengeID = ''c1'', ReqNonce = ''7'', ReqHash = ''0063'', ReqFingerprint = ?t2\<rparr>"
  have k: "key (fingerprintValidator exampleHandler) = exampleKey"
    by (simp add: exampleHandler_def exampleValidator_def)
  have a: "Method tamperedRequest = ''POST''" by (simp add: tamperedRequest_def)
  have b: "Body tamperedRequest = Some ?q1" by (simp add: tamperedRequest_def)
  have c: "Method malformedRequest = ''POST''" by (simp add: malformedRequest_def)
  have d: "Body malformedRequest = Some ?q2" by (simp add: malformedRequest_def)
  have e0: "Decrypt exampleLib ?t1 exampleKey
              = Err ''failed to decrypt: cipher: message authentication failed''"
    by code_simp
  have f0: "Decrypt exampleLib ?t2 exampleKey = Ok ''dab''" by code_simp
  have e: "Decrypt exampleLib (ReqFingerprint ?q1) (key (fingerprintValidator exampleHandler))
              = Err ''failed to decrypt: cipher: message authentication failed''"
    using e0 k by simp
  have f: "Decrypt exampleLib (ReqFingerprint ?q2) (key (fingerprintValidator exampleHandler))
              = Ok ''dab''"
    using f0 k by simp
  have g: "DecodeBase64 exampleLib (ReverseBytes ''dab'') = Inr ''bad''"
    by (simp add: DecodeBase64_def exampleLib_def ReverseBytes_rev)
  have h: "json_unmarshal exampleLib ''bad'' = Inr (exampleFingerprint\<lparr>UserAgent := ''bad''\<rparr>)"
    by (simp add: exampleLib_def)
  have i: "validateFingerprintFields (exampleFingerprint\<lparr>UserAgent := ''bad''\<rparr>)
             = Some ''invalid user agent: user agent length out of range''"
    by code_simp
  from fingerprint_failures_indistinguishable [OF a b c d e f g h i,
      of exampleWorld exampleDb exampleWorld exampleDb]
  have "fst (VerifyHandler exampleLib exampleHandler exampleWorld exampleDb tamperedRequest)
       = fst (VerifyHandler exampleLib exampleHandler exampleWorld exampleDb malformedRequest)"
    by blast
  with e0 f0 i show ?thesis by blast
qed

subsection \<open>C8: a core count out of range\<close>

text \<open>
  Claim C8. A fingerprint whose user agent, language and platform pass their rules and
  whose core count lies outside 1 to 128 is rejected with the error of the core-count
  field: the rules are checked in the order of the source and the first violation is
  returned under the name of its field.
\<close>

theorem core_count_out_of_range_rejected:
  assumes "validateUserAgent (UserAgent fp) = None"
    and "validateLanguage (Language fp) = None"
    and "validatePlatform (Platform fp) = None"
    and "HardwareConcurrency fp < 1 \<or> 128 < HardwareConcurrency fp"
  shows "validateFingerprintFields fp =
           Some ''invalid hardware concurrency: hardware concurrency out of range''"
proof -
  have "validateHardwareConcurrency (HardwareConcurrency fp) =
          Some ''hardware concurrency out of range''"
    using assms(4) by (auto simp: validateHardwareConcurrency_def)
  then show ?thesis
    using assms(1-3) by (simp add: validateFingerprintFields_def fieldChecks_def wrapErr_def)
qed

text \<open>
  Witness for C8: the example fingerprint with a core count of 256.
\<close>

theorem core_count_out_of_range_rejected_witness:
  "validateUserAgent (UserAgent (exampleFingerprint\<lparr>HardwareConcurrency := 256\<rparr>)) = None
   \<and> validateLanguage (Language (exampleFingerprint\<lparr>HardwareConcurrency := 256\<rparr>)) = None
   \<and> validatePlatform (Platform (exampleFingerprint\<lparr>HardwareConcurrency := 256\<rparr>)) = None
   \<and> (128 :: int) < HardwareConcurrency (exampleFingerprint\<lparr>HardwareConcurrency := 256\<rparr>)
   \<and> validateFingerprintFields (exampleFingerprint\<lparr>HardwareConcurrency := 256\<rparr>) =
       Some ''invalid hardware concurrency: hardware concurrency out of range''"
proof -
  let ?fp = "exampleFingerprint\<lparr>HardwareConcurrency := 256\<rparr>"
  have a: "validateUserAgent (UserAgent ?fp) = None" by code_simp
  have b: "validateLanguage (Language ?fp) = None" by code_simp
  have c: "validatePlatform (Platform ?fp) = None" by code_simp
  have d: "(128 :: int) < HardwareConcurrency ?fp" by simp
  have "validateFingerprintFields ?fp =
          Some ''invalid hardware concurrency: hardware concurrency out of range''"
    using d by (intro core_count_out_of_range_rejected [OF a b c]) simp
  with a b c d show ?thesis by blast
qed

subsection \<open>C9: the estimated solve time\<close>

text \<open>
  Counterexample for C9: with a target prefix of ten characters and a configured maximum
  of 10000000000 seconds, the minimum of \<open>(1 << 40) / 100\<close> and the maximum is
  10000000000 seconds, but the product with \<open>time.Second\<close> wraps around in 64 bits and
  the result is a negative duration.
\<close>

theorem duration_overflow_counterexample:
  "length (Argon2TargetPrefix (cfg \<lparr>cfg = overflowConfig\<rparr>)) = 10
   \<and> sint (Argon2MaxSolveTime (cfg \<lparr>cfg = overflowConfig\<rparr>)) = 10000000000
   \<and> min ((1 * 2 ^ (4 * 10)) div 100) (10000000000 :: int) = 10000000000
   \<and> sint (EstimateSolveTime \<lparr>cfg = overflowConfig\<rparr>) = - 8446744073709551616
   \<and> sint (EstimateSolveTime \<lparr>cfg = overflowConfig\<rparr>) \<noteq> 10000000000 * 1000000000"
  by (simp add: EstimateSolveTime_def overflowConfig_def exampleConfig_def goDiv_def Second_def
      Let_def signed_divide_int_def word_sless_alt)

text \<open>
  Claim C9, amended. For a target prefix of at most 15 characters and a configured maximum
  such that the clamped number of seconds lies within 9223372036 of zero (so that it fits
  a duration in nanoseconds), \<open>EstimateSolveTime\<close> is the minimum of
  \<open>2 ^ (4 * L) div 100\<close> and the configured maximum, in seconds, and does not exceed the
  configured maximum. The outcome of \<open>VerifySolution\<close> is the same under every
  configuration, so it does not depend on the estimate.
\<close>

theorem EstimateSolveTime_clamped:
  assumes "length (Argon2TargetPrefix (cfg s)) \<le> 15"
    and "- 9223372036 \<le> sint (Argon2MaxSolveTime (cfg s))"
    and "min (2 ^ (4 * length (Argon2TargetPrefix (cfg s))) div 100)
             (sint (Argon2MaxSolveTime (cfg s))) \<le> 9223372036"
  shows "sint (EstimateSolveTime s) =
           min (2 ^ (4 * length (Argon2TargetPrefix (cfg s))) div 100)
               (sint (Argon2MaxSolveTime (cfg s))) * 1000000000
       \<and> sint (EstimateSolveTime s) \<le> sint (Argon2MaxSolveTime (cfg s)) * 1000000000
       \<and> VerifySolution L s w d cid nonce h fpr ip ua
           = VerifySolution L s' w d cid nonce h fpr ip ua"
proof -
  let ?n = "length (Argon2TargetPrefix (cfg s)) * 4"
  let ?est = "goDiv (push_bit ?n (1 :: i64)) 100"
  let ?max = "Argon2MaxSolveTime (cfg s)"
  let ?r = "if ?max <s ?est then ?max else ?est"
  have n: "?n \<le> 60" using assms(1) by simp
  have est: "sint ?est = 2 ^ ?n div 100" using n by (rule sint_goDiv_attempts)
  have r: "sint ?r = min (2 ^ ?n div 100) (sint ?max)"
  proof (cases "?max <s ?est")
    case True
    then have "sint ?max < 2 ^ ?n div 100" unfolding word_sless_alt est .
    then show ?thesis using True by (simp only: if_True min_def) simp
  next
    case False
    then have "\<not> sint ?max < 2 ^ ?n div 100" unfolding word_sless_alt est .
    then show ?thesis using False est by (simp only: if_False min_def) simp
  qed
  have nn: "(0::int) \<le> 2 ^ ?n div 100" by (simp add: pos_imp_zdiv_nonneg_iff)
  have lo: "- 9223372036 \<le> sint ?r" using assms(2) nn unfolding r by simp
  have hi: "sint ?r \<le> 9223372036" using assms(3) unfolding r by (simp add: mult.commute)
  have "EstimateSolveTime s = ?r * Second"
    by (simp add: EstimateSolveTime_def Let_def)
  then have eq: "sint (EstimateSolveTime s) =
           min (2 ^ (4 * length (Argon2TargetPrefix (cfg s))) div 100)
               (sint (Argon2MaxSolveTime (cfg s))) * 1000000000"
    using sint_times_Second [OF lo hi] r by (simp add: mult.commute)
  have le: "sint (EstimateSolveTime s) \<le> sint (Argon2MaxSolveTime (cfg s)) * 1000000000"
    unfolding eq by simp
  show ?thesis using eq le VerifySolution_service [of L s w d cid nonce h fpr ip ua s'] by blast
qed

text \<open>
  Witness for C9: the default configuration, prefix \<open>000\<close> and a maximum of 6 seconds:
  40 seconds are clamped to 6.
\<close>

theorem EstimateSolveTime_clamped_witness:
  "length (Argon2TargetPrefix (cfg exampleService)) \<le> 15
   \<and> - 9223372036 \<le> sint (Argon2MaxSolveTime (cfg exampleService))
   \<and> min (2 ^ (4 * length (Argon2TargetPrefix (cfg exampleService))) div 100)
         (sint (Argon2MaxSolveTime (cfg exampleService))) \<le> 9223372036
   \<and> sint (EstimateSolveTime exampleService) = 6000000000"
proof -
  have a: "length (Argon2TargetPrefix (cfg exampleService)) \<le> 15"
    by (simp add: exampleService_def exampleConfig_def)
  have b: "- 9223372036 \<le> sint (Argon2MaxSolveTime (cfg exampleService))"
    by (simp add: exampleService_def exampleConfig_def)
  have m: "min (2 ^ (4 * length (Argon2TargetPrefix (cfg exampleService))) div 100)
         (sint (Argon2MaxSolveTime (cfg exampleService))) = 6"
    by (simp add: exampleService_def exampleConfig_def)
  have c: "min (2 ^ (4 * length (Argon2TargetPrefix (cfg exampleService))) div 100)
         (sint (Argon2MaxSolveTime (cfg exampleService))) \<le> 9223372036"
    unfolding m by simp
  from EstimateSolveTime_clamped [OF a b c]
  have "sint (EstimateSolveTime exampleService) = 6000000000"
    unfolding m by simp
  with a b c show ?thesis by blast
qed

subsection \<open>C10: Decrypt does not panic\<close>

text \<open>
  Claim C10. For every token and key \<open>Decrypt\<close> returns a plaintext or an error and never
  panics: the two slice expressions are in range and \<open>Open\<close> receives a nonce of twelve
  bytes. A token that decodes to fewer than twelve bytes is rejected, once the cipher is
  set up, by the length test, with \<open>ciphertext too short\<close>.
\<close>

theorem Decrypt_never_panics:
  "((\<exists>plaintext. Decrypt L token k = Ok plaintext) \<or> (\<exists>e. Decrypt L token k = Err e))
   \<and> (\<forall>ciphertext.
        base64_decode L token = Inr ciphertext \<and> length ciphertext < 12
        \<and> aes_NewCipher L k = None \<and> cipher_NewGCM L k = None
        \<longrightarrow> Decrypt L token k = Err ''ciphertext too short'')"
  by (auto simp: Decrypt_def sliceTo_def sliceFrom_def Open_def NonceSize_def
      split: sum.splits option.splits)

text \<open>
  Witness for C10: a token of five bytes under the example key.
\<close>

theorem Decrypt_never_panics_witness:
  "base64_decode exampleLib ''short'' = Inr ''short'' \<and> length ''short'' < 12
   \<and> aes_NewCipher exampleLib exampleKey = None \<and> cipher_NewGCM exampleLib exampleKey = None
   \<and> Decrypt exampleLib ''short'' exampleKey = Err ''ciphertext too short''"
proof -
  have a: "base64_decode exampleLib ''short'' = Inr ''short''" by (simp add: exampleLib_def)
  have b: "length ''short'' < 12" by simp
  have c: "aes_NewCipher exampleLib exampleKey = None"
    by (simp add: exampleLib_def exampleKey_def)
  have d: "cipher_NewGCM exampleLib exampleKey = None" by (simp add: exampleLib_def)
  have "Decrypt exampleLib ''short'' exampleKey = Err ''ciphertext too short''"
    using Decrypt_never_panics [of exampleLib "''short''" exampleKey] a b c d by blast
  with a b c d show ?thesis by blast
qed

end
